theory Spec2Isabelle
  imports Complex_Main "HOL-Library.Sublist"
begin

section \<open>Python values\<close>

text \<open>
  The validator works on whatever \<^verbatim>\<open>resp.json()\<close> returns. A value of type \<open>json\<close> is
  one such Python object; \<open>JNull\<close> is \<^verbatim>\<open>None\<close> (a missing key read with \<^verbatim>\<open>.get\<close> and
  a JSON \<^verbatim>\<open>null\<close> are the same object in Python). A dict is an association list read with
  \<open>map_of\<close>. A float is the real number it denotes (NaN and the infinities are left out).

  Text is a \<open>string\<close>: ASCII text has one \<open>char\<close> per character, any other character is
  written as the bytes of its UTF-8 encoding.
\<close>

datatype json =
    JNull
  | JBool bool
  | JInt int
  | JFloat real
  | JStr string
  | JList "json list"
  | JDict "(string \<times> json) list"

datatype py_error = TypeError | AttributeError | KeyError

text \<open>Truth value of an object, as \<^verbatim>\<open>if x\<close> and \<^verbatim>\<open>x or y\<close> test it.\<close>

fun truthy :: "json \<Rightarrow> bool" where
  "truthy JNull = False"
| "truthy (JBool b) = b"
| "truthy (JInt i) = (i \<noteq> 0)"
| "truthy (JFloat x) = (x \<noteq> 0)"
| "truthy (JStr s) = (s \<noteq> [])"
| "truthy (JList xs) = (xs \<noteq> [])"
| "truthy (JDict kvs) = (kvs \<noteq> [])"

text \<open>\<^verbatim>\<open>x or y\<close>\<close>

definition py_or :: "json \<Rightarrow> json \<Rightarrow> json" where
  "py_or x y = (if truthy x then x else y)"

text \<open>\<^verbatim>\<open>x == 0\<close>\<close>

fun py_eq_zero :: "json \<Rightarrow> bool" where
  "py_eq_zero (JInt i) = (i = 0)"
| "py_eq_zero (JFloat x) = (x = 0)"
| "py_eq_zero (JBool b) = (\<not> b)"
| "py_eq_zero _ = False"

text \<open>\<^verbatim>\<open>sub in s\<close> on two strings: \<open>sub\<close> occurs in \<open>s\<close> as a contiguous block.\<close>

fun substring :: "string \<Rightarrow> string \<Rightarrow> bool" where
  "substring sub [] = (sub = [])"
| "substring sub (c # cs) = (prefix sub (c # cs) \<or> substring sub cs)"

text \<open>\<^verbatim>\<open>k in x\<close> for a string \<open>k\<close>: substring of a string, element of a list, key of a dict;
  \<^verbatim>\<open>TypeError\<close> on anything else.\<close>

fun py_in :: "string \<Rightarrow> json \<Rightarrow> py_error + bool" where
  "py_in k (JStr s) = Inr (substring k s)"
| "py_in k (JList xs) = Inr (JStr k \<in> set xs)"
| "py_in k (JDict kvs) = Inr (k \<in> fst ` set kvs)"
| "py_in k _ = Inl TypeError"

text \<open>\<^verbatim>\<open>x[k]\<close> for a string \<open>k\<close>.\<close>

fun py_getitem :: "json \<Rightarrow> string \<Rightarrow> py_error + json" where
  "py_getitem (JDict kvs) k = (case map_of kvs k of Some v \<Rightarrow> Inr v | None \<Rightarrow> Inl KeyError)"
| "py_getitem _ k = Inl TypeError"

text \<open>\<^verbatim>\<open>x.get(k, default)\<close>; only a dict has the method.\<close>

definition dict_get :: "(string \<times> json) list \<Rightarrow> string \<Rightarrow> json \<Rightarrow> json" where
  "dict_get kvs k d = (case map_of kvs k of Some v \<Rightarrow> v | None \<Rightarrow> d)"

fun py_get :: "json \<Rightarrow> string \<Rightarrow> json \<Rightarrow> py_error + json" where
  "py_get (JDict kvs) k d = Inr (dict_get kvs k d)"
| "py_get _ k d = Inl AttributeError"

text \<open>\<^verbatim>\<open>len(x)\<close> is defined on strings, lists and dicts only.\<close>

fun has_len :: "json \<Rightarrow> bool" where
  "has_len (JStr s) = True"
| "has_len (JList xs) = True"
| "has_len (JDict kvs) = True"
| "has_len _ = False"

subsection \<open>String methods\<close>

text \<open>\<^verbatim>\<open>s.lower()\<close>. Only the letters A to Z are mapped; the lower-case forms of all other
  characters contain none of the letters of \<^verbatim>\<open>error\<close>, the only text searched for in a
  lowered string.\<close>

definition lower_char :: "char \<Rightarrow> char" where
  "lower_char c =
     (case map_of (zip ''ABCDEFGHIJKLMNOPQRSTUVWXYZ'' ''abcdefghijklmnopqrstuvwxyz'') c of
        Some l \<Rightarrow> l | None \<Rightarrow> c)"

fun py_lower :: "json \<Rightarrow> py_error + json" where
  "py_lower (JStr s) = Inr (JStr (map lower_char s))"
| "py_lower _ = Inl AttributeError"

text \<open>\<^verbatim>\<open>len(s)\<close> counts characters: every byte that is not a UTF-8 continuation byte.\<close>

definition is_continuation :: "char \<Rightarrow> bool" where
  "is_continuation c = (digit7 c \<and> \<not> digit6 c)"

definition py_len :: "string \<Rightarrow> nat" where
  "py_len s = length (filter (\<lambda>c. \<not> is_continuation c) s)"

text \<open>The characters \<^verbatim>\<open>str.strip()\<close> removes (those with \<^verbatim>\<open>isspace()\<close>), each as its
  UTF-8 bytes.\<close>

definition whitespace :: "string list" where
  "whitespace =
     [ [CHR 0x09], [CHR 0x0A], [CHR 0x0B], [CHR 0x0C], [CHR 0x0D],
      [CHR 0x1C], [CHR 0x1D], [CHR 0x1E], [CHR 0x1F], [CHR 0x20],
      [CHR 0xC2, CHR 0x85], [CHR 0xC2, CHR 0xA0], [CHR 0xE1, CHR 0x9A, CHR 0x80],
      [CHR 0xE2, CHR 0x80, CHR 0x80], [CHR 0xE2, CHR 0x80, CHR 0x81],
      [CHR 0xE2, CHR 0x80, CHR 0x82], [CHR 0xE2, CHR 0x80, CHR 0x83],
      [CHR 0xE2, CHR 0x80, CHR 0x84], [CHR 0xE2, CHR 0x80, CHR 0x85],
      [CHR 0xE2, CHR 0x80, CHR 0x86], [CHR 0xE2, CHR 0x80, CHR 0x87],
      [CHR 0xE2, CHR 0x80, CHR 0x88], [CHR 0xE2, CHR 0x80, CHR 0x89],
      [CHR 0xE2, CHR 0x80, CHR 0x8A], [CHR 0xE2, CHR 0x80, CHR 0xA8],
      [CHR 0xE2, CHR 0x80, CHR 0xA9], [CHR 0xE2, CHR 0x80, CHR 0xAF],
      [CHR 0xE2, CHR 0x81, CHR 0x9F], [CHR 0xE3, CHR 0x80, CHR 0x80] ]"

fun lstrip :: "string list \<Rightarrow> string \<Rightarrow> string" where
  "lstrip ws [] = []"
| "lstrip ws (c # cs) =
     (case find (\<lambda>w. w \<noteq> [] \<and> prefix w (c # cs)) ws of
        None \<Rightarrow> c # cs
      | Some w \<Rightarrow> lstrip ws (drop (length w - 1) cs))"

definition py_strip :: "string \<Rightarrow> string" where
  "py_strip s = rev (lstrip (map rev whitespace) (rev (lstrip whitespace s)))"

text \<open>\<^verbatim>\<open>s.split(sep)[0]\<close> for a one-character separator: the text before its first
  occurrence, the whole text when it does not occur.\<close>

definition split_first :: "char \<Rightarrow> string \<Rightarrow> string" where
  "split_first sep s = takeWhile (\<lambda>c. c \<noteq> sep) s"

text \<open>\<^verbatim>\<open>s.replace(old, new)\<close> for a non-empty \<open>old\<close>: every occurrence, found from left to
  right without overlap, is replaced.\<close>

fun py_replace :: "string \<Rightarrow> string \<Rightarrow> string \<Rightarrow> string" where
  "py_replace old new [] = []"
| "py_replace old new (c # cs) =
     (if old \<noteq> [] \<and> prefix old (c # cs)
      then new @ py_replace old new (drop (length old - 1) cs)
      else c # py_replace old new cs)"

subsection \<open>Rendering values as text\<close>

definition digit_char :: "nat \<Rightarrow> char" where
  "digit_char d = ''0123456789'' ! (d mod 10)"

fun str_nat :: "nat \<Rightarrow> string" where
  "str_nat n = (if n < 10 then [digit_char n] else str_nat (n div 10) @ [digit_char (n mod 10)])"

declare str_nat.simps [simp del]

definition str_int :: "int \<Rightarrow> string" where
  "str_int i = (if i < 0 then CHR ''-'' # str_nat (nat (- i)) else str_nat (nat i))"

text \<open>\<^verbatim>\<open>str(x)\<close>, also what an f-string or \<^verbatim>\<open>str.format\<close> inserts. The texts of floats,
  lists and dicts are produced by the Python runtime; \<open>repr\<close> stands for that part.\<close>

fun py_str :: "(json \<Rightarrow> string) \<Rightarrow> json \<Rightarrow> string" where
  "py_str repr JNull = ''None''"
| "py_str repr (JBool b) = (if b then ''True'' else ''False'')"
| "py_str repr (JInt i) = str_int i"
| "py_str repr (JStr s) = s"
| "py_str repr v = repr v"

subsection \<open>Exceptions\<close>

text \<open>A raised exception is the value \<open>Inl e\<close>; \<open>and_then\<close> runs the rest of a block only when
  nothing was raised.\<close>

definition and_then :: "py_error + 'a \<Rightarrow> ('a \<Rightarrow> py_error + 'b) \<Rightarrow> py_error + 'b" where
  "and_then m f = (case m of Inl e \<Rightarrow> Inl e | Inr x \<Rightarrow> f x)"

text \<open>A list comprehension \<^verbatim>\<open>[o for o in xs if p(o)]\<close> whose condition may raise.\<close>

fun filter_err :: "('a \<Rightarrow> py_error + bool) \<Rightarrow> 'a list \<Rightarrow> py_error + 'a list" where
  "filter_err p [] = Inr []"
| "filter_err p (x # xs) =
     and_then (p x) (\<lambda>keep.
     and_then (filter_err p xs) (\<lambda>rest.
     Inr (if keep then x # rest else rest)))"

text \<open>\<^verbatim>\<open>for o in x\<close>: the elements of a list, the keys of a dict, the characters of a string
  (here one string per byte: the validator only calls \<^verbatim>\<open>.get\<close> on them, which no string
  has).\<close>

fun py_iter :: "json \<Rightarrow> py_error + json list" where
  "py_iter (JList xs) = Inr xs"
| "py_iter (JDict kvs) = Inr (map (\<lambda>kv. JStr (fst kv)) kvs)"
| "py_iter (JStr s) = Inr (map (\<lambda>c. JStr [c]) s)"
| "py_iter _ = Inl TypeError"

section \<open>The remote service\<close>

text \<open>
  One evaluation talks to three endpoints. A \<open>session\<close> is the service as it answers during
  that evaluation: \<open>Failed\<close> when \<^verbatim>\<open>session.get\<close> raises, otherwise \<open>Reply ok body\<close> with
  \<^verbatim>\<open>resp.ok\<close> and the parsed body (\<open>None\<close> when \<^verbatim>\<open>resp.json()\<close> raises). Every function
  returns, next to its value, the effects it had, in order: the requests sent, and the two log
  records that mark the revenue-model stage (all other log records are left out).
\<close>

datatype request =
    Order_GET string      \<comment> \<open>\<^verbatim>\<open>ASAT_ORDER_URL\<close> with the order id filled in\<close>
  | Product_GET string    \<comment> \<open>\<^verbatim>\<open>PRODUCT_DETAILS_URL\<close> with the article id filled in\<close>
  | Orders_GET string     \<comment> \<open>\<^verbatim>\<open>MULTIPLE_ORDERS_URL\<close> with the \<^verbatim>\<open>dhId\<close> parameter\<close>

datatype reply = Failed | Reply bool "json option"

type_synonym session = "request \<Rightarrow> reply"

datatype effect = Sent request | Logged string

definition body_if_ok :: "reply \<Rightarrow> json" where
  "body_if_ok r = (case r of Reply True (Some data) \<Rightarrow> data | _ \<Rightarrow> JNull)"

definition get_order_details :: "session \<Rightarrow> string \<Rightarrow> json \<times> effect list" where
  "get_order_details session order_id =
     (body_if_ok (session (Order_GET order_id)), [Sent (Order_GET order_id)])"

definition get_product_details ::
  "(json \<Rightarrow> string) \<Rightarrow> session \<Rightarrow> json \<Rightarrow> json \<times> effect list" where
  "get_product_details repr session article =
     (body_if_ok (session (Product_GET (py_str repr article))),
      [Sent (Product_GET (py_str repr article))])"

text \<open>\<^verbatim>\<open>clean_article_id = article_id.replace("PD", "") if article_id else article_id\<close>\<close>

definition clean_article_id :: "json \<Rightarrow> py_error + json" where
  "clean_article_id article =
     (if truthy article
      then (case article of JStr s \<Rightarrow> Inr (JStr (py_replace ''PD'' [] s))
                          | _ \<Rightarrow> Inl AttributeError)
      else Inr article)"

text \<open>The payload is returned as it is when \<^verbatim>\<open>len(orders)\<close>, evaluated for the log record,
  does not raise; every other path ends in \<^verbatim>\<open>return []\<close>.\<close>

definition orders_payload :: "reply \<Rightarrow> json" where
  "orders_payload r =
     (case r of
        Reply True (Some (JDict kvs)) \<Rightarrow>
          (case map_of kvs ''payload'' of
             Some orders \<Rightarrow> if has_len orders then orders else JList []
           | None \<Rightarrow> JList [])
      | _ \<Rightarrow> JList [])"

definition get_multiple_orders ::
  "(json \<Rightarrow> string) \<Rightarrow> session \<Rightarrow> json \<Rightarrow> (py_error + json) \<times> effect list" where
  "get_multiple_orders repr session article =
     (case clean_article_id article of
        Inl e \<Rightarrow> (Inl e, [])
      | Inr clean \<Rightarrow>
          (Inr (orders_payload (session (Orders_GET (py_str repr clean)))),
           [Sent (Orders_GET (py_str repr clean))]))"

section \<open>History inspection\<close>

text \<open>\<^verbatim>\<open>"Error" in event_type or "error" in event_type.lower()\<close>\<close>

definition is_error_type :: "json \<Rightarrow> py_error + bool" where
  "is_error_type event_type =
     and_then (py_in ''Error'' event_type) (\<lambda>found.
       if found then Inr True
       else and_then (py_lower event_type) (\<lambda>lowered. py_in ''error'' lowered))"

text \<open>The code extracted from the description of an error event.\<close>

definition extract_error_code :: "json \<Rightarrow> py_error + string option" where
  "extract_error_code event_desc =
     and_then (py_in ''V041'' event_desc) (\<lambda>v041.
       if v041 then Inr (Some ''V041'')
       else and_then (py_in '':'' event_desc) (\<lambda>colon.
         if colon then
           (case event_desc of
              JStr s \<Rightarrow>
                (let potential_code = py_strip (split_first CHR '':'' s)
                 in Inr (if py_len potential_code < 10 then Some potential_code else None))
            | _ \<Rightarrow> Inl AttributeError)
         else Inr None))"

fun scan_errors :: "json list \<Rightarrow> py_error + (bool \<times> string option \<times> json)" where
  "scan_errors [] = Inr (False, None, JNull)"
| "scan_errors (event # rest) =
     (case event of
        JDict kvs \<Rightarrow>
          and_then (is_error_type (dict_get kvs ''eventType'' (JStr []))) (\<lambda>is_err.
            if is_err then
              and_then (extract_error_code (dict_get kvs ''eventDescription'' (JStr []))) (\<lambda>code.
                Inr (True, code, dict_get kvs ''eventDescription'' (JStr [])))
            else scan_errors rest)
      | _ \<Rightarrow> scan_errors rest)"

definition check_error_in_history :: "json \<Rightarrow> py_error + (bool \<times> string option \<times> json)" where
  "check_error_in_history order_history =
     (case order_history of
        JList events \<Rightarrow> if events = [] then Inr (False, None, JNull) else scan_errors events
      | _ \<Rightarrow> Inr (False, None, JNull))"

fun scan_credit_memo :: "json list \<Rightarrow> py_error + bool" where
  "scan_credit_memo [] = Inr False"
| "scan_credit_memo (event # rest) =
     (case event of
        JDict kvs \<Rightarrow>
          and_then (py_in ''Credit memo created'' (dict_get kvs ''eventType'' (JStr []))) (\<lambda>found.
            if found then Inr True else scan_credit_memo rest)
      | _ \<Rightarrow> scan_credit_memo rest)"

definition check_credit_memo_in_history :: "json \<Rightarrow> py_error + bool" where
  "check_credit_memo_in_history order_history =
     (case order_history of
        JList events \<Rightarrow> if events = [] then Inr False else scan_credit_memo events
      | _ \<Rightarrow> Inr False)"

section \<open>Revenue model rules\<close>

definition validate_revenue_model_rules ::
  "(json \<Rightarrow> string) \<Rightarrow> json \<Rightarrow> json \<Rightarrow> json \<Rightarrow> bool \<times> string" where
  "validate_revenue_model_rules repr revenue payment charged =
     (if revenue = JStr ''OO'' then
        (if py_eq_zero charged then (False, ''OO with totalChargedAmount = 0'')
         else (True, ''OO with totalChargedAmount > 0 ($'' @ py_str repr charged @ '')''))
      else if revenue = JStr ''OA'' then
        (if payment = JStr ''Invoice'' then
           (if py_eq_zero charged then (False, ''OA + Invoice with totalChargedAmount = 0'')
            else (True, ''OA + Invoice with totalChargedAmount > 0 ($''
                          @ py_str repr charged @ '')''))
         else (True, ''OA + '' @ py_str repr payment @ '' (regardless of totalChargedAmount)''))
      else (True, ''Revenue Model '' @ py_str repr revenue))"

section \<open>The result of one evaluation\<close>

text \<open>The dataclass \<^verbatim>\<open>OrderResult\<close>. A field that the code fills from the fetched data holds
  the fetched object, whatever it is; \<^verbatim>\<open>None\<close> is \<open>JNull\<close>.\<close>

record OrderResult =
  order_id :: string
  article_id :: json
  order_status :: json
  payment_method :: json
  total_charged :: json
  journal_name :: json
  revenue_model :: json
  article_doi :: json
  has_error :: bool
  error_code :: "string option"
  error_description :: json
  is_v041_error :: bool
  other_orders :: json
  other_orders_not_canceled :: nat
  canceled_order_has_credit_memo :: "bool option"
  can_resend :: bool
  validation_reason :: string
  validation_step :: string
  resend_status :: "string option"
  resend_error :: "string option"
  order_context :: "(string \<times> json) list"
  error :: "string option"

text \<open>\<^verbatim>\<open>OrderResult(order_id=order_id, context=context)\<close>: every other field at its default.\<close>

definition new_result :: "string \<Rightarrow> (string \<times> json) list \<Rightarrow> OrderResult" where
  "new_result oid ctx =
     \<lparr> order_id = oid, article_id = JNull, order_status = JNull, payment_method = JNull,
       total_charged = JNull, journal_name = JNull, revenue_model = JNull, article_doi = JNull,
       has_error = False, error_code = None, error_description = JNull,
       is_v041_error = False, other_orders = JList [], other_orders_not_canceled = 0,
       canceled_order_has_credit_memo = None, can_resend = False, validation_reason = [],
       validation_step = [], resend_status = None, resend_error = None,
       order_context = ctx, error = None \<rparr>"

text \<open>A block of \<^verbatim>\<open>validate_order\<close> either returns the result or hands on to the next block.\<close>

datatype ('r, 'c) flow = Return 'r | Continue 'c

section \<open>Reading the fetched order\<close>

text \<open>The three optional sections of the order (\<^verbatim>\<open>article\<close>, \<^verbatim>\<open>journal\<close>,
  \<^verbatim>\<open>paymentDetails\<close>).\<close>

definition read_article :: "json \<Rightarrow> OrderResult \<Rightarrow> py_error + OrderResult" where
  "read_article order_data result =
     and_then (py_in ''article'' order_data) (\<lambda>present.
       if present then
         and_then (py_getitem order_data ''article'') (\<lambda>article.
         and_then (py_get article ''id'' JNull) (\<lambda>aid.
         and_then (py_get article ''doi'' JNull) (\<lambda>doi.
         Inr (result\<lparr>article_id := aid, article_doi := doi\<rparr>))))
       else Inr result)"

definition read_journal :: "json \<Rightarrow> OrderResult \<Rightarrow> py_error + OrderResult" where
  "read_journal order_data result =
     and_then (py_in ''journal'' order_data) (\<lambda>present.
       if present then
         and_then (py_getitem order_data ''journal'') (\<lambda>journal.
         and_then (py_get journal ''name'' JNull) (\<lambda>name.
         Inr (result\<lparr>journal_name := name\<rparr>)))
       else Inr result)"

definition read_payment :: "json \<Rightarrow> OrderResult \<Rightarrow> py_error + OrderResult" where
  "read_payment order_data result =
     and_then (py_in ''paymentDetails'' order_data) (\<lambda>present.
       if present then
         and_then (py_getitem order_data ''paymentDetails'') (\<lambda>payment.
         and_then (py_get payment ''paymentMethod'' JNull) (\<lambda>method.
         and_then (py_get payment ''totalChargedAmount'' (JInt 0)) (\<lambda>charged.
         Inr (result\<lparr>payment_method := method, total_charged := charged\<rparr>))))
       else Inr result)"

text \<open>Lines 343 to 369: the order-details section is required, the other three are read when
  present. The block hands on the result and the order's history.\<close>

definition read_order ::
  "json \<Rightarrow> OrderResult \<Rightarrow> py_error + (OrderResult, OrderResult \<times> json) flow" where
  "read_order order_data result =
     and_then (py_in ''orderDetails'' order_data) (\<lambda>present.
       if present then
         and_then (py_getitem order_data ''orderDetails'') (\<lambda>order_details.
         and_then (py_get order_details ''orderStatus'' JNull) (\<lambda>status.
         and_then (py_get order_details ''orderHistory'' (JList [])) (\<lambda>order_history.
         and_then (read_article order_data (result\<lparr>order_status := status\<rparr>)) (\<lambda>result1.
         and_then (read_journal order_data result1) (\<lambda>result2.
         and_then (read_payment order_data result2) (\<lambda>result3.
         Inr (Continue (result3, order_history))))))))
       else
         Inr (Return (result\<lparr>validation_reason := ''orderDetails not found na resposta'',
                             validation_step := ''1. Order query''\<rparr>)))"

section \<open>V041: the other orders of the article\<close>

text \<open>The condition of the comprehension that builds \<^verbatim>\<open>not_canceled\<close>.\<close>

definition is_not_canceled :: "(json \<Rightarrow> string) \<Rightarrow> string \<Rightarrow> json \<Rightarrow> py_error + bool" where
  "is_not_canceled repr oid other =
     and_then (py_get other ''orderUniqueId'' JNull) (\<lambda>uid.
       if py_str repr uid \<noteq> oid then
         and_then (py_get other ''orderStatus'' JNull) (\<lambda>status.
           if status \<noteq> JStr ''OrderCanceledInAMP'' then Inr True
           else and_then (py_get other ''inCancelledState'' (JBool False)) (\<lambda>flag.
                  Inr (\<not> truthy flag)))
       else Inr False)"

text \<open>The condition of the comprehension that builds \<^verbatim>\<open>canceled_orders\<close>.\<close>

definition is_canceled :: "(json \<Rightarrow> string) \<Rightarrow> string \<Rightarrow> json \<Rightarrow> py_error + bool" where
  "is_canceled repr oid other =
     and_then (py_get other ''orderUniqueId'' JNull) (\<lambda>uid.
       if py_str repr uid \<noteq> oid then
         and_then (py_get other ''orderStatus'' JNull) (\<lambda>status.
           Inr (status = JStr ''OrderCanceledInAMP''))
       else Inr False)"

text \<open>The body of the loop over the canceled orders: whether this one has a credit memo. An
  order without id, one that cannot be fetched and one without order details have none.\<close>

definition canceled_has_credit_memo ::
  "(json \<Rightarrow> string) \<Rightarrow> session \<Rightarrow> json \<Rightarrow> (py_error + bool) \<times> effect list" where
  "canceled_has_credit_memo repr session canceled =
     (case py_get canceled ''orderUniqueId'' JNull of
        Inl e \<Rightarrow> (Inl e, [])
      | Inr canceled_id \<Rightarrow>
          if truthy canceled_id then
            (let (canceled_data, fx) = get_order_details session (py_str repr canceled_id)
             in (and_then (if truthy canceled_data then py_in ''orderDetails'' canceled_data
                           else Inr False) (\<lambda>usable.
                   if usable then
                     and_then (py_getitem canceled_data ''orderDetails'') (\<lambda>details.
                     and_then (py_get details ''orderHistory'' (JList [])) (\<lambda>canceled_history.
                     check_credit_memo_in_history canceled_history))
                   else Inr False),
                 fx))
          else (Inr False, []))"

text \<open>The loop: it leaves at the first canceled order with a credit memo.\<close>

fun credit_memo_scan ::
  "(json \<Rightarrow> string) \<Rightarrow> session \<Rightarrow> json list \<Rightarrow> (py_error + bool) \<times> effect list" where
  "credit_memo_scan repr session [] = (Inr False, [])"
| "credit_memo_scan repr session (canceled # rest) =
     (case canceled_has_credit_memo repr session canceled of
        (Inl e, fx) \<Rightarrow> (Inl e, fx)
      | (Inr True, fx) \<Rightarrow> (Inr True, fx)
      | (Inr False, fx) \<Rightarrow>
          (let (found, fx') = credit_memo_scan repr session rest in (found, fx @ fx')))"

text \<open>Lines 396 to 491, entered when the error code is V041.\<close>

definition v041_resolution ::
  "(json \<Rightarrow> string) \<Rightarrow> session \<Rightarrow> string \<Rightarrow> OrderResult
     \<Rightarrow> (py_error + (OrderResult, OrderResult) flow) \<times> effect list" where
  "v041_resolution repr session oid result0 =
     (let result = result0\<lparr>is_v041_error := True, validation_step := ''2. V041 error detection''\<rparr>
      in
      if \<not> truthy (article_id result) then
        (Inr (Return (result\<lparr>validation_reason :=
                               ''Erro V041 detected but article_id not available'',
                             can_resend := False\<rparr>)), [])
      else
        (case get_multiple_orders repr session (article_id result) of
           (Inl e, fx) \<Rightarrow> (Inl e, fx)
         | (Inr others, fx) \<Rightarrow>
             (let result = result\<lparr>other_orders := others\<rparr> in
              if \<not> truthy others then
                (Inr (Return (result\<lparr>validation_reason :=
                    ''V041 error: could not verify other orders for the article'',
                    can_resend := False\<rparr>)), fx)
              else
                (case and_then (py_iter others) (filter_err (is_not_canceled repr oid)) of
                   Inl e \<Rightarrow> (Inl e, fx)
                 | Inr not_canceled \<Rightarrow>
                     (let result = result\<lparr>other_orders_not_canceled := length not_canceled\<rparr> in
                      if length not_canceled > 0 then
                        (Inr (Return (result\<lparr>can_resend := False,
                            validation_reason := ''V041 error: '' @ str_nat (length not_canceled)
                              @ '' non-canceled order(s) detected - requires VIAX review'',
                            validation_step := ''2.1. V041 - Multiple active orders''\<rparr>)), fx)
                      else
                        (case and_then (py_iter others) (filter_err (is_canceled repr oid)) of
                           Inl e \<Rightarrow> (Inl e, fx)
                         | Inr canceled_orders \<Rightarrow>
                             if canceled_orders = [] then
                               (Inr (Return (result\<lparr>can_resend := False,
                                   validation_reason := ''V041 error: no canceled order found'',
                                   validation_step := ''2.1. V041 - No canceled orders''\<rparr>)), fx)
                             else
                               (case credit_memo_scan repr session canceled_orders of
                                  (Inl e, fx1) \<Rightarrow> (Inl e, fx @ fx1)
                                | (Inr has_credit_memo, fx1) \<Rightarrow>
                                    (let result = result\<lparr>canceled_order_has_credit_memo :=
                                                           Some has_credit_memo\<rparr> in
                                     if \<not> has_credit_memo then
                                       (Inr (Return (result\<lparr>can_resend := False,
                                           validation_reason :=
                                             ''V041 error: canceled order without credit memo''
                                             @ '' - requires VIAX review'',
                                           validation_step := ''2.1. V041 - No credit memo''\<rparr>)),
                                        fx @ fx1)
                                     else
                                       (Inr (Continue (result\<lparr>validation_step :=
                                           ''2.1. V041 - Ignored, validating revenue model''\<rparr>)),
                                        fx @ fx1)))))))))"

section \<open>Revenue model validation\<close>

text \<open>The marks U+2705 and U+274C that open the final reason, as UTF-8.\<close>

definition CHECK_MARK :: string where
  "CHECK_MARK = [CHR 0xE2, CHR 0x9C, CHR 0x85]"

definition CROSS_MARK :: string where
  "CROSS_MARK = [CHR 0xE2, CHR 0x9D, CHR 0x8C]"

text \<open>Lines 526 to 528: the revenue model is read from a \<^verbatim>\<open>journal\<close> section that is a
  dict.\<close>

definition read_revenue_model :: "json \<Rightarrow> OrderResult \<Rightarrow> py_error + OrderResult" where
  "read_revenue_model product_data result =
     and_then (py_in ''journal'' product_data) (\<lambda>present.
       if present then
         and_then (py_getitem product_data ''journal'') (\<lambda>journal.
           case journal of
             JDict kvs \<Rightarrow> Inr (result\<lparr>revenue_model := dict_get kvs ''revenueModel'' JNull\<rparr>)
           | _ \<Rightarrow> Inr result)
       else Inr result)"

text \<open>Lines 505 to 557. The two log records are those written on entry to the stage and
  right before the rule set is called.\<close>

definition revenue_model_validation ::
  "(json \<Rightarrow> string) \<Rightarrow> session \<Rightarrow> OrderResult \<Rightarrow> (py_error + OrderResult) \<times> effect list" where
  "revenue_model_validation repr session result =
     (let fx0 = [Logged ''STEP 4: Validating Revenue Model''] in
      if \<not> truthy (article_id result) then
        (Inr (result\<lparr>can_resend := False,
                    validation_reason := ''article_id not available para valida''
                      @ [CHR 0xC3, CHR 0xA7, CHR 0xC3, CHR 0xA3] @ ''o de revenue model''\<rparr>), fx0)
      else
        (let (product_data, fx1) = get_product_details repr session (article_id result) in
         if \<not> truthy product_data then
           (Inr (result\<lparr>can_resend := False,
                       validation_reason :=
                         ''Could not query productDetails to get revenue model''\<rparr>), fx0 @ fx1)
         else
           (case read_revenue_model product_data result of
              Inl e \<Rightarrow> (Inl e, fx0 @ fx1)
            | Inr result1 \<Rightarrow>
                if \<not> truthy (revenue_model result1) then
                  (Inr (result1\<lparr>can_resend := False,
                               validation_reason :=
                                 ''Revenue model not found em productDetails''\<rparr>), fx0 @ fx1)
                else
                  (let (can, reason) =
                         validate_revenue_model_rules repr (revenue_model result1)
                           (py_or (payment_method result1) (JStr []))
                           (py_or (total_charged result1) (JInt 0))
                   in (Inr (result1\<lparr>can_resend := can,
                         validation_reason :=
                           (if can then
                              (if is_v041_error result1
                               then CHECK_MARK @ '' CAN RESEND: V041 ignored + '' @ reason
                               else CHECK_MARK @ '' CAN RESEND: '' @ reason)
                            else CROSS_MARK @ '' BLOCKED: '' @ reason)\<rparr>),
                       fx0 @ fx1 @ [Logged ''   Applying Revenue Model rules...''])))))"

section \<open>The evaluation of one order\<close>

text \<open>\<^verbatim>\<open>validate_order\<close>. The parameter \<^verbatim>\<open>debug\<close> only adds log records and is left out;
  whatever those records evaluate raises nothing that the next statement would not raise.\<close>

definition validate_order ::
  "(json \<Rightarrow> string) \<Rightarrow> session \<Rightarrow> string \<Rightarrow> (string \<times> json) list
     \<Rightarrow> (py_error + OrderResult) \<times> effect list" where
  "validate_order repr session oid ctx =
     (let result = new_result oid ctx;
          (order_data, fx) = get_order_details session oid
      in
      if \<not> truthy order_data then
        (Inr (result\<lparr>error := Some ''Could not query the order'',
                    validation_reason := ''Error querying ASAT'',
                    validation_step := ''1. Order query''\<rparr>), fx)
      else
        (case read_order order_data result of
           Inl e \<Rightarrow> (Inl e, fx)
         | Inr (Return result1) \<Rightarrow> (Inr result1, fx)
         | Inr (Continue (result1, order_history)) \<Rightarrow>
             if order_status result1 = JStr ''OrderCanceledInAMP'' then
               (Inr (result1\<lparr>can_resend := False,
                            validation_reason := ''Order canceled (OrderCanceledInAMP)'',
                            validation_step := ''1. Canceled status check''\<rparr>), fx)
             else
               (case check_error_in_history order_history of
                  Inl e \<Rightarrow> (Inl e, fx)
                | Inr (err, code, desc) \<Rightarrow>
                    (let result2 = result1\<lparr>has_error := err, error_code := code,
                                           error_description := desc\<rparr> in
                     if err then
                       (if code = Some ''V041'' then
                          (case v041_resolution repr session oid result2 of
                             (Inl e, fx1) \<Rightarrow> (Inl e, fx @ fx1)
                           | (Inr (Return result3), fx1) \<Rightarrow> (Inr result3, fx @ fx1)
                           | (Inr (Continue result3), fx1) \<Rightarrow>
                               (let (out, fx2) = revenue_model_validation repr session result3
                                in (out, fx @ fx1 @ fx2)))
                        else
                          (Inr (result2\<lparr>can_resend := False,
                             validation_reason := ''Error detected: ''
                               @ (case code of None \<Rightarrow> ''DESCONHECIDO''
                                  | Some c \<Rightarrow> if c = [] then ''DESCONHECIDO'' else c)
                               @ '' - '' @ py_str repr desc,
                             validation_step := ''2.2. Other error detected''\<rparr>), fx))
                     else
                       (let (out, fx2) = revenue_model_validation repr session
                              (result2\<lparr>validation_step :=
                                          ''3. No errors, validating revenue model''\<rparr>)
                        in (out, fx @ fx2))))))"

section \<open>The batch summary\<close>

text \<open>\<^verbatim>\<open>process_file_parallel\<close> keeps the result of every evaluation that returned; one that
  raised is logged and dropped. The workers finish in any order; the list is kept here in the
  order of submission, and the counts below do not depend on the order.\<close>

definition process_file_parallel ::
  "(json \<Rightarrow> string) \<Rightarrow> session \<Rightarrow> (string \<times> (string \<times> json) list) list \<Rightarrow> OrderResult list" where
  "process_file_parallel repr session orders =
     concat (map (\<lambda>(oid, ctx). case fst (validate_order repr session oid ctx) of
                                 Inr r \<Rightarrow> [r] | Inl e \<Rightarrow> []) orders)"

text \<open>\<^verbatim>\<open>r.error\<close> as a condition.\<close>

definition error_set :: "OrderResult \<Rightarrow> bool" where
  "error_set r = (case error r of Some msg \<Rightarrow> msg \<noteq> [] | None \<Rightarrow> False)"

text \<open>The three counts of the validation summary in \<^verbatim>\<open>main\<close>.\<close>

definition approved :: "OrderResult list \<Rightarrow> nat" where
  "approved all_results = length (filter can_resend all_results)"

definition blocked :: "OrderResult list \<Rightarrow> nat" where
  "blocked all_results = length (filter (\<lambda>r. \<not> can_resend r \<and> \<not> error_set r) all_results)"

definition errors :: "OrderResult list \<Rightarrow> nat" where
  "errors all_results = length (filter error_set all_results)"

section \<open>Fixtures\<close>

text \<open>A service given by three tables (orders by id, product details by article id, the
  orders of an article by \<^verbatim>\<open>dhId\<close>): an entry is answered with HTTP success and that body,
  anything else fails.\<close>

fun answer :: "json option \<Rightarrow> reply" where
  "answer None = Failed"
| "answer (Some body) = Reply True (Some body)"

definition service ::
  "(string \<times> json) list \<Rightarrow> (string \<times> json) list \<Rightarrow> (string \<times> json) list \<Rightarrow> session" where
  "service orders products others rq =
     (case rq of
        Order_GET k \<Rightarrow> answer (map_of orders k)
      | Product_GET k \<Rightarrow> answer (map_of products k)
      | Orders_GET k \<Rightarrow> answer (map_of others k))"

definition event :: "string \<Rightarrow> string \<Rightarrow> json" where
  "event t d = JDict [(''eventType'', JStr t), (''eventDescription'', JStr d)]"

text \<open>An order of article \<^verbatim>\<open>PD100\<close> with the given status, history, payment method and
  charged amount.\<close>

definition order_json :: "string \<Rightarrow> json list \<Rightarrow> string \<Rightarrow> json \<Rightarrow> json" where
  "order_json status history method charged =
     JDict [(''orderDetails'', JDict [(''orderStatus'', JStr status),
                                      (''orderHistory'', JList history)]),
            (''article'', JDict [(''id'', JStr ''PD100''), (''doi'', JStr ''10.1002/x'')]),
            (''journal'', JDict [(''name'', JStr ''Journal'')]),
            (''paymentDetails'', JDict [(''paymentMethod'', JStr method),
                                        (''totalChargedAmount'', charged)])]"

definition plain_repr :: "json \<Rightarrow> string" where
  "plain_repr v = ''<object>''"

text \<open>One of the other orders of an article, as the orders query lists it.\<close>

definition sibling :: "string \<Rightarrow> string \<Rightarrow> bool \<Rightarrow> json" where
  "sibling uid status flag =
     JDict [(''orderUniqueId'', JStr uid), (''orderStatus'', JStr status),
            (''inCancelledState'', JBool flag)]"

definition product_json :: "string \<Rightarrow> json" where
  "product_json model = JDict [(''journal'', JDict [(''revenueModel'', JStr model)])]"

text \<open>Order \<^verbatim>\<open>A1\<close> has a V041 error. \<^verbatim>\<open>A2\<close> and \<^verbatim>\<open>A3\<close> are canceled, \<^verbatim>\<open>A3\<close> with a credit
  memo; the response for \<^verbatim>\<open>A4\<close> has no order details; no other order can be fetched. The
  article has the given other orders and revenue model.\<close>

definition v041_service :: "json list \<Rightarrow> string \<Rightarrow> string \<Rightarrow> json \<Rightarrow> session" where
  "v041_service siblings model method charged =
     service
       [(''A1'', order_json ''OrderPlaced'' [event ''Error'' ''V041: duplicate order'']
                   method charged),
        (''A2'', order_json ''OrderCanceledInAMP'' [event ''Refund requested'' ''pending'']
                   method charged),
        (''A3'', order_json ''OrderCanceledInAMP'' [event ''Credit memo created'' ''CM-1'']
                   method charged),
        (''A4'', JDict [(''message'', JStr ''no details'')])]
       [(''PD100'', product_json model)]
       [(''100'', JDict [(''payload'', JList siblings)])]"

text \<open>The other orders of an article as the orders query lists them for order \<^verbatim>\<open>A1\<close>: the
  order itself, \<^verbatim>\<open>A3\<close> canceled with the flag set, \<^verbatim>\<open>A5\<close> with the canceled status but
  without the flag, and eleven placed orders.\<close>

definition busy_article :: "json list" where
  "busy_article =
     [sibling ''A1'' ''OrderPlaced'' False, sibling ''A3'' ''OrderCanceledInAMP'' True,
      sibling ''A5'' ''OrderCanceledInAMP'' False]
     @ map (\<lambda>uid. sibling uid ''OrderPlaced'' False)
         [''B01'', ''B02'', ''B03'', ''B04'', ''B05'', ''B06'', ''B07'', ''B08'', ''B09'',
          ''B10'', ''B11'']"

section \<open>The specification's wording\<close>

text \<open>The error code as the specification words it: \<^verbatim>\<open>V041\<close> when the description
  contains it, else the text before the first colon when there is a colon and that text has
  fewer than 10 characters, else none. It is compared below with what
  \<open>check_error_in_history\<close> returns.\<close>

definition spec_error_code :: "string \<Rightarrow> string option" where
  "spec_error_code d =
     (if substring ''V041'' d then Some ''V041''
      else if substring '':'' d \<and> py_len (split_first CHR '':'' d) < 10
           then Some (split_first CHR '':'' d)
           else None)"

text \<open>The partition of the other orders as the specification words it. An order is
  \<^emph>\<open>not canceled\<close> when its id, as text, differs from the current order's and its status is
  not the canceled status or its in-cancelled-state flag is not set; it is \<^emph>\<open>canceled\<close> when
  its id differs and its status is the canceled status.\<close>

definition spec_not_canceled :: "(json \<Rightarrow> string) \<Rightarrow> string \<Rightarrow> json \<Rightarrow> bool" where
  "spec_not_canceled repr oid s =
     (case s of
        JDict kvs \<Rightarrow>
          py_str repr (dict_get kvs ''orderUniqueId'' JNull) \<noteq> oid
          \<and> (dict_get kvs ''orderStatus'' JNull \<noteq> JStr ''OrderCanceledInAMP''
               \<or> \<not> truthy (dict_get kvs ''inCancelledState'' (JBool False)))
      | _ \<Rightarrow> False)"

definition spec_canceled :: "(json \<Rightarrow> string) \<Rightarrow> string \<Rightarrow> json \<Rightarrow> bool" where
  "spec_canceled repr oid s =
     (case s of
        JDict kvs \<Rightarrow>
          py_str repr (dict_get kvs ''orderUniqueId'' JNull) \<noteq> oid
          \<and> dict_get kvs ''orderStatus'' JNull = JStr ''OrderCanceledInAMP''
      | _ \<Rightarrow> False)"

text \<open>A canceled order that the credit-memo scan passes over: its id is absent (or otherwise
  false as a condition), its own fetch brings nothing, or the fetched dict has no
  order-details section.\<close>

definition spec_skipped :: "(json \<Rightarrow> string) \<Rightarrow> session \<Rightarrow> json \<Rightarrow> bool" where
  "spec_skipped repr session c =
     (case c of
        JDict kvs \<Rightarrow>
          (if truthy (dict_get kvs ''orderUniqueId'' JNull) then
             (case fst (get_order_details session
                          (py_str repr (dict_get kvs ''orderUniqueId'' JNull))) of
                JDict body \<Rightarrow> body = [] \<or> map_of body ''orderDetails'' = None
              | other \<Rightarrow> \<not> truthy other)
           else True)
      | _ \<Rightarrow> False)"

text \<open>The number that a text cites. A text is read as a decimal numeral, character by
  character and by character code: \<open>decimal_digit\<close> is the value of one of the characters
  \<^verbatim>\<open>0\<close> to \<^verbatim>\<open>9\<close> (codes 48 to 57), \<open>decimal_fold\<close> reads a run of digits from the left, and
  \<open>decimal_value\<close> accepts a text that has at least one character, only digits, and no
  leading zero unless it is \<^verbatim>\<open>0\<close> itself. It is compared below with the text that the
  evaluation writes for a count.\<close>

definition decimal_digit :: "char \<Rightarrow> nat option" where
  "decimal_digit c =
     (if 48 \<le> (of_char c :: nat) \<and> (of_char c :: nat) \<le> 57 then Some (of_char c - 48) else None)"

fun decimal_fold :: "nat \<Rightarrow> string \<Rightarrow> nat option" where
  "decimal_fold acc [] = Some acc"
| "decimal_fold acc (c # cs) =
     (case decimal_digit c of None \<Rightarrow> None | Some d \<Rightarrow> decimal_fold (10 * acc + d) cs)"

definition decimal_value :: "string \<Rightarrow> nat option" where
  "decimal_value s =
     (if s = [] \<or> (hd s = CHR ''0'' \<and> tl s \<noteq> []) then None else decimal_fold 0 s)"

section \<open>Properties\<close>

subsection \<open>Basic facts\<close>

lemma and_then_Inl [simp]: "and_then (Inl e) f = Inl e"
  by (simp add: and_then_def)

lemma and_then_Inr [simp]: "and_then (Inr x) f = f x"
  by (simp add: and_then_def)

lemma py_in_dict: "py_in k (JDict kvs) = Inr (map_of kvs k \<noteq> None)"
  by (simp add: map_of_eq_None_iff)

text \<open>An order whose optional sections are dicts is read without exception: the status and
  the history come from the order-details section, and only the fields filled from the
  sections change.\<close>

lemma read_article_dict:
  assumes "\<And>v. map_of kvs ''article'' = Some v \<Longrightarrow> \<exists>d. v = JDict d"
  shows "\<exists>a b. read_article (JDict kvs) r = Inr (r\<lparr>article_id := a, article_doi := b\<rparr>)"
proof (cases "map_of kvs ''article''")
  case None
  then have "read_article (JDict kvs) r
               = Inr (r\<lparr>article_id := article_id r, article_doi := article_doi r\<rparr>)"
    unfolding read_article_def py_in_dict by simp
  then show ?thesis by blast
next
  case (Some v)
  then obtain d where "v = JDict d" using assms by blast
  then show ?thesis using Some unfolding read_article_def py_in_dict by auto
qed

lemma read_journal_dict:
  assumes "\<And>v. map_of kvs ''journal'' = Some v \<Longrightarrow> \<exists>d. v = JDict d"
  shows "\<exists>n. read_journal (JDict kvs) r = Inr (r\<lparr>journal_name := n\<rparr>)"
proof (cases "map_of kvs ''journal''")
  case None
  then have "read_journal (JDict kvs) r = Inr (r\<lparr>journal_name := journal_name r\<rparr>)"
    unfolding read_journal_def py_in_dict by simp
  then show ?thesis by blast
next
  case (Some v)
  then obtain d where "v = JDict d" using assms by blast
  then show ?thesis using Some unfolding read_journal_def py_in_dict by auto
qed

lemma read_payment_dict:
  assumes "\<And>v. map_of kvs ''paymentDetails'' = Some v \<Longrightarrow> \<exists>d. v = JDict d"
  shows "\<exists>m c. read_payment (JDict kvs) r
                  = Inr (r\<lparr>payment_method := m, total_charged := c\<rparr>)"
proof (cases "map_of kvs ''paymentDetails''")
  case None
  then have "read_payment (JDict kvs) r
               = Inr (r\<lparr>payment_method := payment_method r, total_charged := total_charged r\<rparr>)"
    unfolding read_payment_def py_in_dict by simp
  then show ?thesis by blast
next
  case (Some v)
  then obtain d where "v = JDict d" using assms by blast
  then show ?thesis using Some unfolding read_payment_def py_in_dict by auto
qed

lemma read_order_dict:
  assumes details: "map_of kvs ''orderDetails'' = Some (JDict ds)"
      and sections: "\<forall>k\<in>{''article'', ''journal'', ''paymentDetails''}. \<forall>v.
                       map_of kvs k = Some v \<longrightarrow> (\<exists>d. v = JDict d)"
  shows "\<exists>a b n m c. read_order (JDict kvs) r =
           Inr (Continue (r\<lparr>order_status := dict_get ds ''orderStatus'' JNull,
                            article_id := a, article_doi := b, journal_name := n,
                            payment_method := m, total_charged := c\<rparr>,
                          dict_get ds ''orderHistory'' (JList [])))"
proof -
  let ?r0 = "r\<lparr>order_status := dict_get ds ''orderStatus'' JNull\<rparr>"
  obtain a b where A:
    "read_article (JDict kvs) ?r0 = Inr (?r0\<lparr>article_id := a, article_doi := b\<rparr>)"
    using read_article_dict [of kvs ?r0] sections by auto
  let ?r1 = "?r0\<lparr>article_id := a, article_doi := b\<rparr>"
  obtain n where J: "read_journal (JDict kvs) ?r1 = Inr (?r1\<lparr>journal_name := n\<rparr>)"
    using read_journal_dict [of kvs ?r1] sections by auto
  let ?r2 = "?r1\<lparr>journal_name := n\<rparr>"
  obtain m c where P:
    "read_payment (JDict kvs) ?r2 = Inr (?r2\<lparr>payment_method := m, total_charged := c\<rparr>)"
    using read_payment_dict [of kvs ?r2] sections by auto
  have "read_order (JDict kvs) r =
          Inr (Continue (?r2\<lparr>payment_method := m, total_charged := c\<rparr>,
                         dict_get ds ''orderHistory'' (JList [])))"
    unfolding read_order_def py_in_dict using details A J P by simp
  then show ?thesis by blast
qed

subsection \<open>Counts as decimal text\<close>

text \<open>The text written for a number is its decimal numeral: reading it back digit by digit
  gives the number, and no other text reads as that number.\<close>

lemma below_ten:
  fixes k :: nat
  assumes "k < 10"
  shows "k = 0 \<or> k = 1 \<or> k = 2 \<or> k = 3 \<or> k = 4
       \<or> k = 5 \<or> k = 6 \<or> k = 7 \<or> k = 8 \<or> k = 9"
  using assms by arith

lemma decimal_digit_digit_char: "decimal_digit (digit_char d) = Some (d mod 10)"
proof -
  show ?thesis
    using below_ten [of "d mod 10"]
    unfolding digit_char_def decimal_digit_def by (auto simp: nth_Cons')
qed

lemma decimal_fold_snoc:
  "decimal_fold acc (xs @ [c]) =
     (case decimal_fold acc xs of
        None \<Rightarrow> None
      | Some v \<Rightarrow> (case decimal_digit c of None \<Rightarrow> None | Some d \<Rightarrow> Some (10 * v + d)))"
  by (induction xs arbitrary: acc) (auto split: option.splits)

lemma decimal_fold_str_nat: "decimal_fold 0 (str_nat n) = Some n"
proof (induction n rule: str_nat.induct)
  case (1 n)
  show ?case
  proof (cases "n < 10")
    case True
    then show ?thesis
      by (subst str_nat.simps) (simp add: decimal_digit_digit_char)
  next
    case False
    then have "decimal_fold 0 (str_nat (n div 10)) = Some (n div 10)" using 1 by simp
    then show ?thesis using False
      by (subst str_nat.simps) (simp add: decimal_fold_snoc decimal_digit_digit_char)
  qed
qed

lemma str_nat_not_empty: "str_nat n \<noteq> []"
  by (subst str_nat.simps) simp

lemma digit_char_zero: "digit_char d = CHR ''0'' \<longleftrightarrow> d mod 10 = 0"
proof -
  show ?thesis
    using below_ten [of "d mod 10"]
    unfolding digit_char_def by (auto simp: nth_Cons')
qed

lemma str_nat_no_leading_zero: "hd (str_nat n) = CHR ''0'' \<Longrightarrow> n = 0"
proof (induction n rule: str_nat.induct)
  case (1 n)
  show ?case
  proof (cases "n < 10")
    case True
    then have "str_nat n = [digit_char n]" by (subst str_nat.simps) simp
    then show ?thesis using 1(2) True by (simp add: digit_char_zero)
  next
    case False
    then have "str_nat n = str_nat (n div 10) @ [digit_char (n mod 10)]"
      by (subst str_nat.simps) simp
    then have "hd (str_nat n) = hd (str_nat (n div 10))"
      by (simp add: str_nat_not_empty)
    then have "n div 10 = 0" using 1 False by simp
    then show ?thesis using False by simp
  qed
qed

lemma str_nat_zero: "str_nat 0 = ''0''"
  by (subst str_nat.simps) (simp add: digit_char_def)

lemma decimal_value_str_nat: "decimal_value (str_nat n) = Some n"
proof -
  have "\<not> (hd (str_nat n) = CHR ''0'' \<and> tl (str_nat n) \<noteq> [])"
    using str_nat_no_leading_zero [of n] by (auto simp: str_nat_zero)
  then show ?thesis
    unfolding decimal_value_def by (simp add: str_nat_not_empty decimal_fold_str_nat)
qed

lemma str_nat_examples:
  "str_nat 0 = ''0''" "str_nat 9 = ''9''" "str_nat 10 = ''10''" "str_nat 12 = ''12''"
  "str_nat 105 = ''105''" "str_nat 4301 = ''4301''"
  by (simp_all add: str_nat.simps digit_char_def)

lemma decimal_digit_inverse:
  assumes "decimal_digit c = Some d"
  shows "d < 10 \<and> c = digit_char d"
proof -
  have k: "48 \<le> (of_char c :: nat)" "(of_char c :: nat) \<le> 57" "d = of_char c - 48"
    using assms by (auto simp: decimal_digit_def split: if_splits)
  then have d: "d < 10" by simp
  have "(of_char c :: nat) = 48 + d" using k by simp
  then have "(of_char c :: nat) = of_char (digit_char d)"
    using below_ten [OF d] unfolding digit_char_def by (auto simp: nth_Cons')
  then have "c = digit_char d" by simp
  then show ?thesis using d by simp
qed

lemma decimal_value_unique:
  assumes "decimal_value s = Some n"
  shows "s = str_nat n"
  using assms
proof (induction s arbitrary: n rule: rev_induct)
  case Nil
  then show ?case by (simp add: decimal_value_def)
next
  case (snoc c xs)
  from snoc.prems have fold: "decimal_fold 0 (xs @ [c]) = Some n"
    by (simp add: decimal_value_def split: if_splits)
  then obtain v d where v: "decimal_fold 0 xs = Some v" and dd: "decimal_digit c = Some d"
    and n: "n = 10 * v + d"
    by (auto simp: decimal_fold_snoc split: option.splits)
  have d: "d < 10" and c: "c = digit_char d" using decimal_digit_inverse [OF dd] by simp_all
  show ?case
  proof (cases "xs = []")
    case True
    then have "n = d" using v n by simp
    then show ?thesis using True d c by (subst str_nat.simps) simp
  next
    case False
    then have "hd xs \<noteq> CHR ''0''" using snoc.prems
      by (auto simp: decimal_value_def hd_append split: if_splits)
    then have lead: "\<not> (hd xs = CHR ''0'' \<and> tl xs \<noteq> [])" by simp
    have "decimal_value xs = Some v"
      using v False lead by (simp add: decimal_value_def)
    then have xs: "xs = str_nat v" by (rule snoc.IH)
    have "v \<noteq> 0"
    proof
      assume "v = 0"
      then have "hd xs = CHR ''0''" using xs by (simp add: str_nat_zero)
      then show False using \<open>hd xs \<noteq> CHR ''0''\<close> by simp
    qed
    then have "\<not> n < 10" "n div 10 = v" "n mod 10 = d" using n d by simp_all
    then have "str_nat n = str_nat v @ [digit_char d]"
      by (subst str_nat.simps) simp
    then show ?thesis using xs c by simp
  qed
qed

lemma decimal_value_iff: "decimal_value s = Some n \<longleftrightarrow> s = str_nat n"
  using decimal_value_unique decimal_value_str_nat by blast

subsection \<open>Cancellation check\<close>

text \<open>
  C3. An order that was fetched, with an order-details section whose status is
  \<^verbatim>\<open>OrderCanceledInAMP\<close>, is denied with reason \<^verbatim>\<open>Order canceled (OrderCanceledInAMP)\<close> and
  step \<^verbatim>\<open>1. Canceled status check\<close>. Nothing is assumed about its history, its errors or
  its article, and the order request is the only effect: no later check runs. The optional
  sections of the response, where present, are dicts.
\<close>

theorem canceled_order_is_denied:
  assumes fetched: "fst (get_order_details session oid) = JDict kvs"
      and details: "map_of kvs ''orderDetails'' = Some (JDict ds)"
      and status: "map_of ds ''orderStatus'' = Some (JStr ''OrderCanceledInAMP'')"
      and sections: "\<forall>k\<in>{''article'', ''journal'', ''paymentDetails''}. \<forall>v.
                       map_of kvs k = Some v \<longrightarrow> (\<exists>d. v = JDict d)"
  shows "\<exists>r. validate_order repr session oid ctx = (Inr r, [Sent (Order_GET oid)])
           \<and> \<not> can_resend r
           \<and> validation_reason r = ''Order canceled (OrderCanceledInAMP)''
           \<and> validation_step r = ''1. Canceled status check''
           \<and> error r = None"
proof -
  obtain a b n m c where R: "read_order (JDict kvs) (new_result oid ctx) =
           Inr (Continue ((new_result oid ctx)\<lparr>order_status := dict_get ds ''orderStatus'' JNull,
                            article_id := a, article_doi := b, journal_name := n,
                            payment_method := m, total_charged := c\<rparr>,
                          dict_get ds ''orderHistory'' (JList [])))"
    using read_order_dict [OF details sections] by blast
  have T: "truthy (JDict kvs)" using details by auto
  have D: "body_if_ok (session (Order_GET oid)) = JDict kvs"
    using fetched by (simp add: get_order_details_def)
  have S: "dict_get ds ''orderStatus'' JNull = JStr ''OrderCanceledInAMP''"
    using status by (simp add: dict_get_def)
  show ?thesis
    unfolding validate_order_def get_order_details_def
    using T D R S by (simp add: new_result_def)
qed

theorem canceled_order_is_denied_witness:
  "fst (get_order_details
         (service [(''A1'', order_json ''OrderCanceledInAMP''
                              [event ''Error'' ''V041: duplicate''] ''Invoice'' (JInt 0))] [] [])
         ''A1'')
     = order_json ''OrderCanceledInAMP'' [event ''Error'' ''V041: duplicate''] ''Invoice'' (JInt 0)
   \<and> (\<exists>r. validate_order plain_repr
         (service [(''A1'', order_json ''OrderCanceledInAMP''
                              [event ''Error'' ''V041: duplicate''] ''Invoice'' (JInt 0))] [] [])
         ''A1'' []
          = (Inr r, [Sent (Order_GET ''A1'')])
           \<and> \<not> can_resend r
           \<and> validation_reason r = ''Order canceled (OrderCanceledInAMP)''
           \<and> validation_step r = ''1. Canceled status check''
           \<and> error r = None)"
  using canceled_order_is_denied
    [of "service [(''A1'', order_json ''OrderCanceledInAMP''
                             [event ''Error'' ''V041: duplicate''] ''Invoice'' (JInt 0))] [] []"
        "''A1''"
        "[(''orderDetails'', JDict [(''orderStatus'', JStr ''OrderCanceledInAMP''),
                                    (''orderHistory'', JList [event ''Error'' ''V041: duplicate''])]),
          (''article'', JDict [(''id'', JStr ''PD100''), (''doi'', JStr ''10.1002/x'')]),
          (''journal'', JDict [(''name'', JStr ''Journal'')]),
          (''paymentDetails'', JDict [(''paymentMethod'', JStr ''Invoice''),
                                      (''totalChargedAmount'', JInt 0)])]"
        "[(''orderStatus'', JStr ''OrderCanceledInAMP''),
          (''orderHistory'', JList [event ''Error'' ''V041: duplicate''])]"
        plain_repr "[]"]
  by (simp add: get_order_details_def service_def body_if_ok_def order_json_def)

subsection \<open>Revenue model rules\<close>

text \<open>
  C5. The rule set gives one verdict and reason for every revenue model, payment method and
  charged amount. It denies exactly in two cases: revenue model \<^verbatim>\<open>OO\<close> with a charged
  amount equal to zero, with reason \<^verbatim>\<open>OO with totalChargedAmount = 0\<close>, and revenue model
  \<^verbatim>\<open>OA\<close> with payment method \<^verbatim>\<open>Invoice\<close> and a charged amount equal to zero, with reason
  \<^verbatim>\<open>OA + Invoice with totalChargedAmount = 0\<close>. Everything else is allowed, any other
  revenue model included. The amount is compared with zero exactly.
\<close>

theorem revenue_rules_deny_exactly:
  "(fst (validate_revenue_model_rules repr revenue payment charged)
      \<longleftrightarrow> \<not> (revenue = JStr ''OO'' \<and> py_eq_zero charged
             \<or> revenue = JStr ''OA'' \<and> payment = JStr ''Invoice'' \<and> py_eq_zero charged))
   \<and> (revenue = JStr ''OO'' \<and> py_eq_zero charged
        \<longrightarrow> snd (validate_revenue_model_rules repr revenue payment charged)
              = ''OO with totalChargedAmount = 0'')
   \<and> (revenue = JStr ''OA'' \<and> payment = JStr ''Invoice'' \<and> py_eq_zero charged
        \<longrightarrow> snd (validate_revenue_model_rules repr revenue payment charged)
              = ''OA + Invoice with totalChargedAmount = 0'')
   \<and> (revenue \<noteq> JStr ''OO'' \<and> revenue \<noteq> JStr ''OA''
        \<longrightarrow> validate_revenue_model_rules repr revenue payment charged
              = (True, ''Revenue Model '' @ py_str repr revenue))
   \<and> (py_eq_zero (JInt i) \<longleftrightarrow> i = 0)
   \<and> (py_eq_zero (JFloat x) \<longleftrightarrow> x = 0)"
  by (simp add: validate_revenue_model_rules_def)

theorem revenue_rules_deny_exactly_witness:
  "py_eq_zero (JInt 0)
   \<and> validate_revenue_model_rules plain_repr (JStr ''OO'') (JStr ''CreditCard'') (JInt 0)
       = (False, ''OO with totalChargedAmount = 0'')
   \<and> py_eq_zero (JFloat 0)
   \<and> validate_revenue_model_rules plain_repr (JStr ''OA'') (JStr ''Invoice'') (JFloat 0)
       = (False, ''OA + Invoice with totalChargedAmount = 0'')
   \<and> validate_revenue_model_rules plain_repr (JStr ''Hybrid'') (JStr ''Invoice'') (JInt 0)
       = (True, ''Revenue Model Hybrid'')"
  using revenue_rules_deny_exactly
          [of plain_repr "JStr ''OO''" "JStr ''CreditCard''" "JInt 0" 0 0]
        revenue_rules_deny_exactly
          [of plain_repr "JStr ''OA''" "JStr ''Invoice''" "JFloat 0" 0 0]
        revenue_rules_deny_exactly
          [of plain_repr "JStr ''Hybrid''" "JStr ''Invoice''" "JInt 0" 0 0]
  by (simp add: prod_eq_iff)

subsection \<open>Query failures\<close>

text \<open>An order for which no data comes back is a query failure: the error marker is set and
  the summary counts it among the query errors, not among the blocked orders.\<close>

lemma unreachable_order_is_query_failure:
  assumes "\<not> truthy (fst (get_order_details session oid))"
  shows "validate_order repr session oid ctx
           = (Inr ((new_result oid ctx)\<lparr>error := Some ''Could not query the order'',
                     validation_reason := ''Error querying ASAT'',
                     validation_step := ''1. Order query''\<rparr>), [Sent (Order_GET oid)])
         \<and> errors (process_file_parallel repr session [(oid, ctx)]) = 1
         \<and> blocked (process_file_parallel repr session [(oid, ctx)]) = 0"
  using assms
  by (simp add: validate_order_def get_order_details_def process_file_parallel_def
      errors_def blocked_def error_set_def)

text \<open>
  C7. The claim asks that an order whose response lacks the order-details section be a query
  failure that is never counted among the rule denials. The code sets the step
  \<^verbatim>\<open>1. Order query\<close> but not the error marker, so the summary counts the order as blocked by
  the rules: here for a response that is a dict without that section.
\<close>

theorem missing_order_details_counted_as_blocked:
  "validate_order repr (service [(oid, JDict [(''message'', JStr ''no such order'')])] [] [])
       oid ctx
     = (Inr ((new_result oid ctx)\<lparr>validation_reason := ''orderDetails not found na resposta'',
                                  validation_step := ''1. Order query''\<rparr>),
        [Sent (Order_GET oid)])
   \<and> error ((new_result oid ctx)\<lparr>validation_reason := ''orderDetails not found na resposta'',
                                 validation_step := ''1. Order query''\<rparr>) = None
   \<and> blocked (process_file_parallel repr
        (service [(oid, JDict [(''message'', JStr ''no such order'')])] [] []) [(oid, ctx)]) = 1
   \<and> errors (process_file_parallel repr
        (service [(oid, JDict [(''message'', JStr ''no such order'')])] [] []) [(oid, ctx)]) = 0"
  by (simp add: validate_order_def get_order_details_def service_def body_if_ok_def
      read_order_def process_file_parallel_def blocked_def errors_def error_set_def
      new_result_def)

subsection \<open>The article id in the query for the other orders\<close>

text \<open>
  C9. The claim asks that only a leading \<^verbatim>\<open>PD\<close> be removed from the article id. The code
  calls \<^verbatim>\<open>replace\<close>, which removes every occurrence: for the id \<^verbatim>\<open>PD12PD34\<close> the query
  is sent for \<^verbatim>\<open>1234\<close>.
\<close>

theorem get_multiple_orders_removes_every_PD:
  "get_multiple_orders repr session (JStr ''PD12PD34'')
     = (Inr (orders_payload (session (Orders_GET ''1234''))), [Sent (Orders_GET ''1234'')])"
  by (simp add: get_multiple_orders_def clean_article_id_def)

subsection \<open>The first error event\<close>

lemma is_error_type_str:
  "is_error_type (JStr t) = Inr (substring ''Error'' t \<or> substring ''error'' (map lower_char t))"
  by (simp add: is_error_type_def)

lemma extract_error_code_str:
  "extract_error_code (JStr d) =
     Inr (if substring ''V041'' d then Some ''V041''
          else if substring '':'' d
                  \<and> py_len (py_strip (takeWhile (\<lambda>c. c \<noteq> CHR '':'') d)) < 10
               then Some (py_strip (takeWhile (\<lambda>c. c \<noteq> CHR '':'') d))
               else None)"
  by (simp add: extract_error_code_def split_first_def Let_def)

text \<open>Events that are no dicts, and events whose type does not match, are passed over.\<close>

lemma scan_errors_skip:
  assumes "\<forall>e\<in>set before. \<forall>kvs. e = JDict kvs \<longrightarrow>
             (\<exists>t. dict_get kvs ''eventType'' (JStr []) = JStr t
                  \<and> \<not> substring ''Error'' t \<and> \<not> substring ''error'' (map lower_char t))"
  shows "scan_errors (before @ rest) = scan_errors rest"
  using assms
proof (induction before)
  case Nil
  then show ?case by simp
next
  case (Cons e before)
  then have IH: "scan_errors (before @ rest) = scan_errors rest" by simp
  show ?case
  proof (cases e)
    case (JDict kvs)
    then obtain t where "dict_get kvs ''eventType'' (JStr []) = JStr t"
      "\<not> substring ''Error'' t" "\<not> substring ''error'' (map lower_char t)"
      using Cons.prems by auto
    then show ?thesis using JDict IH by (simp add: is_error_type_str)
  qed (simp_all add: IH)
qed

text \<open>
  C6, as the code has it. The history is scanned in its order. The first event whose type
  contains \<^verbatim>\<open>Error\<close>, or \<^verbatim>\<open>error\<close> in any mix of cases, decides: the result is
  \<^verbatim>\<open>has_error = True\<close> with that event's description and the code \<^verbatim>\<open>V041\<close> when the
  description contains it, else the text before the first colon \<^emph>\<open>with the surrounding
  white space stripped\<close>, when there is a colon and the stripped text has fewer than 10
  characters, else no code. The events after it play no part (\<open>after\<close> is arbitrary). A
  history in which no event matches gives \<^verbatim>\<open>has_error = False\<close>, no code and no
  description.
\<close>

theorem first_error_event_decides:
  assumes before: "\<forall>e\<in>set before. \<forall>kvs. e = JDict kvs \<longrightarrow>
             (\<exists>t. dict_get kvs ''eventType'' (JStr []) = JStr t
                  \<and> \<not> substring ''Error'' t \<and> \<not> substring ''error'' (map lower_char t))"
      and etype: "dict_get kvs ''eventType'' (JStr []) = JStr t"
      and hit: "substring ''Error'' t \<or> substring ''error'' (map lower_char t)"
      and descr: "dict_get kvs ''eventDescription'' (JStr []) = JStr d"
  shows "check_error_in_history (JList (before @ JDict kvs # after)) =
           Inr (True,
                (if substring ''V041'' d then Some ''V041''
                 else if substring '':'' d
                         \<and> py_len (py_strip (takeWhile (\<lambda>c. c \<noteq> CHR '':'') d)) < 10
                      then Some (py_strip (takeWhile (\<lambda>c. c \<noteq> CHR '':'') d))
                      else None),
                JStr d)
         \<and> check_error_in_history (JList before) = Inr (False, None, JNull)"
proof -
  have "scan_errors (before @ JDict kvs # after) = scan_errors (JDict kvs # after)"
    using before by (rule scan_errors_skip)
  also have "\<dots> = Inr (True,
                (if substring ''V041'' d then Some ''V041''
                 else if substring '':'' d
                         \<and> py_len (py_strip (takeWhile (\<lambda>c. c \<noteq> CHR '':'') d)) < 10
                      then Some (py_strip (takeWhile (\<lambda>c. c \<noteq> CHR '':'') d))
                      else None),
                JStr d)"
    using etype hit descr by (simp add: is_error_type_str extract_error_code_str)
  finally have found: "check_error_in_history (JList (before @ JDict kvs # after)) =
           Inr (True,
                (if substring ''V041'' d then Some ''V041''
                 else if substring '':'' d
                         \<and> py_len (py_strip (takeWhile (\<lambda>c. c \<noteq> CHR '':'') d)) < 10
                      then Some (py_strip (takeWhile (\<lambda>c. c \<noteq> CHR '':'') d))
                      else None),
                JStr d)"
    by (simp add: check_error_in_history_def)
  have "scan_errors (before @ []) = scan_errors []"
    using before by (rule scan_errors_skip)
  then have none: "check_error_in_history (JList before) = Inr (False, None, JNull)"
    by (simp add: check_error_in_history_def)
  show ?thesis using found none by simp
qed

theorem first_error_event_decides_witness:
  "check_error_in_history
     (JList ([JStr ''note'', event ''Payment received'' ''ok'']
             @ JDict [(''eventType'', JStr ''Validation error''),
                      (''eventDescription'', JStr '' E1 : rejected'')]
             # [event ''Error'' ''V041: duplicate'']))
     = Inr (True, Some ''E1'', JStr '' E1 : rejected'')
   \<and> check_error_in_history (JList [JStr ''note'', event ''Payment received'' ''ok''])
     = Inr (False, None, JNull)"
  using first_error_event_decides
    [of "[JStr ''note'', event ''Payment received'' ''ok'']"
        "[(''eventType'', JStr ''Validation error''),
          (''eventDescription'', JStr '' E1 : rejected'')]"
        "''Validation error''" "'' E1 : rejected''" "[event ''Error'' ''V041: duplicate'']"]
  by (simp add: event_def dict_get_def lower_char_def py_strip_def whitespace_def py_len_def
      is_continuation_def)

text \<open>The claim as worded takes the text before the colon as it stands: for the description
  \<^verbatim>\<open> E1: boom\<close> that is \<^verbatim>\<open> E1\<close> with its blank, where the code returns \<^verbatim>\<open>E1\<close>.\<close>

theorem error_code_is_stripped_counterexample:
  "check_error_in_history (JList [event ''Error'' '' E1: boom''])
     = Inr (True, Some ''E1'', JStr '' E1: boom'')
   \<and> spec_error_code '' E1: boom'' = Some '' E1''"
  by (simp add: check_error_in_history_def event_def is_error_type_def extract_error_code_def
      dict_get_def split_first_def py_strip_def whitespace_def py_len_def is_continuation_def
      spec_error_code_def)

subsection \<open>Errors other than V041\<close>

text \<open>
  C4, as the code has it. A fetched order that is not canceled and whose history gives an
  error with a code other than \<^verbatim>\<open>V041\<close>, or with no code, is denied at step
  \<^verbatim>\<open>2.2. Other error detected\<close>. The reason holds the code and the description as
  extracted; where the code is absent or empty it holds the word \<^verbatim>\<open>DESCONHECIDO\<close>. The
  revenue-model stage does not run: the order request is the only effect (no product
  request, none of the stage's log records) and the revenue model stays unset.
\<close>

theorem other_error_is_denied:
  assumes fetched: "fst (get_order_details session oid) = JDict kvs"
      and details: "map_of kvs ''orderDetails'' = Some (JDict ds)"
      and sections: "\<forall>k\<in>{''article'', ''journal'', ''paymentDetails''}. \<forall>v.
                       map_of kvs k = Some v \<longrightarrow> (\<exists>d. v = JDict d)"
      and live: "dict_get ds ''orderStatus'' JNull \<noteq> JStr ''OrderCanceledInAMP''"
      and err: "check_error_in_history (dict_get ds ''orderHistory'' (JList []))
                  = Inr (True, code, desc)"
      and other: "code \<noteq> Some ''V041''"
  shows "\<exists>r. validate_order repr session oid ctx = (Inr r, [Sent (Order_GET oid)])
           \<and> \<not> can_resend r
           \<and> validation_reason r =
               ''Error detected: ''
               @ (case code of None \<Rightarrow> ''DESCONHECIDO''
                  | Some c \<Rightarrow> if c = [] then ''DESCONHECIDO'' else c)
               @ '' - '' @ py_str repr desc
           \<and> validation_step r = ''2.2. Other error detected''
           \<and> revenue_model r = JNull
           \<and> error r = None"
proof -
  obtain a b n m c where R: "read_order (JDict kvs) (new_result oid ctx) =
           Inr (Continue ((new_result oid ctx)\<lparr>order_status := dict_get ds ''orderStatus'' JNull,
                            article_id := a, article_doi := b, journal_name := n,
                            payment_method := m, total_charged := c\<rparr>,
                          dict_get ds ''orderHistory'' (JList [])))"
    using read_order_dict [OF details sections] by blast
  have T: "truthy (JDict kvs)" using details by auto
  have D: "body_if_ok (session (Order_GET oid)) = JDict kvs"
    using fetched by (simp add: get_order_details_def)
  show ?thesis
    unfolding validate_order_def get_order_details_def
    using T D R live err other by (simp add: new_result_def)
qed

theorem other_error_is_denied_witness:
  "check_error_in_history (JList [event ''Error'' ''E77: card declined''])
      = Inr (True, Some ''E77'', JStr ''E77: card declined'')
   \<and> (\<exists>r. validate_order plain_repr
        (service [(''A1'', order_json ''OrderPlaced'' [event ''Error'' ''E77: card declined'']
                             ''Invoice'' (JInt 0))] [] [])
        ''A1'' [] = (Inr r, [Sent (Order_GET ''A1'')])
           \<and> \<not> can_resend r
           \<and> validation_reason r = ''Error detected: E77 - E77: card declined''
           \<and> validation_step r = ''2.2. Other error detected''
           \<and> revenue_model r = JNull
           \<and> error r = None)"
  using other_error_is_denied
    [of "service [(''A1'', order_json ''OrderPlaced''
                             [event ''Error'' ''E77: card declined''] ''Invoice'' (JInt 0))] [] []"
        "''A1''"
        "[(''orderDetails'', JDict [(''orderStatus'', JStr ''OrderPlaced''),
                                    (''orderHistory'',
                                       JList [event ''Error'' ''E77: card declined''])]),
          (''article'', JDict [(''id'', JStr ''PD100''), (''doi'', JStr ''10.1002/x'')]),
          (''journal'', JDict [(''name'', JStr ''Journal'')]),
          (''paymentDetails'', JDict [(''paymentMethod'', JStr ''Invoice''),
                                      (''totalChargedAmount'', JInt 0)])]"
        "[(''orderStatus'', JStr ''OrderPlaced''),
          (''orderHistory'', JList [event ''Error'' ''E77: card declined''])]"
        "Some ''E77''" "JStr ''E77: card declined''" plain_repr "[]"]
  by (simp add: get_order_details_def service_def body_if_ok_def order_json_def event_def
      dict_get_def check_error_in_history_def is_error_type_def extract_error_code_def
      split_first_def py_strip_def whitespace_def py_len_def is_continuation_def)

text \<open>The claim as worded puts the word \<^verbatim>\<open>unknown\<close> into the reason when the code is
  absent; the reason built for an error event without code does not contain it.\<close>

theorem other_error_reason_counterexample:
  "map_sum id validation_reason
     (fst (validate_order plain_repr
        (service [(''A1'', order_json ''OrderPlaced'' [event ''Error'' ''boom'']
                             ''Invoice'' (JInt 0))] [] [])
        ''A1'' []))
     = Inr ''Error detected: DESCONHECIDO - boom''
   \<and> \<not> substring ''unknown'' ''Error detected: DESCONHECIDO - boom''"
  by (simp add: validate_order_def get_order_details_def service_def body_if_ok_def
      order_json_def event_def read_order_def read_article_def read_journal_def
      read_payment_def dict_get_def check_error_in_history_def is_error_type_def
      extract_error_code_def new_result_def)

subsection \<open>Evaluating the fixtures\<close>

lemmas run_defs =
  validate_order_def get_order_details_def get_product_details_def get_multiple_orders_def
  clean_article_id_def orders_payload_def body_if_ok_def service_def v041_service_def
  order_json_def event_def sibling_def product_json_def plain_repr_def
  read_order_def read_article_def read_journal_def read_payment_def read_revenue_model_def
  dict_get_def check_error_in_history_def is_error_type_def extract_error_code_def
  check_credit_memo_in_history_def new_result_def v041_resolution_def is_not_canceled_def
  is_canceled_def canceled_has_credit_memo_def revenue_model_validation_def
  validate_revenue_model_rules_def py_or_def Let_def

subsection \<open>The reason after a waived V041\<close>

lemma read_revenue_model_frame:
  assumes "read_revenue_model product_data r0 = Inr r1"
  shows "r1 = r0\<lparr>revenue_model := revenue_model r1\<rparr>"
  using assms
  by (auto simp: read_revenue_model_def and_then_def split: sum.splits if_splits json.splits)

text \<open>What the revenue-model stage leaves behind once it has called the rule set.\<close>

lemma revenue_model_validation_rules_reached:
  assumes run: "revenue_model_validation repr session r0 = (Inr r, fx)"
      and reached: "Logged ''   Applying Revenue Model rules...'' \<in> set fx"
  shows "is_v041_error r = is_v041_error r0 \<and> validation_step r = validation_step r0
       \<and> can_resend r = fst (validate_revenue_model_rules repr (revenue_model r)
                               (py_or (payment_method r) (JStr []))
                               (py_or (total_charged r) (JInt 0)))
       \<and> validation_reason r =
           (if can_resend r then
              (if is_v041_error r0
               then CHECK_MARK @ '' CAN RESEND: V041 ignored + ''
                    @ snd (validate_revenue_model_rules repr (revenue_model r)
                               (py_or (payment_method r) (JStr []))
                               (py_or (total_charged r) (JInt 0)))
               else CHECK_MARK @ '' CAN RESEND: ''
                    @ snd (validate_revenue_model_rules repr (revenue_model r)
                               (py_or (payment_method r) (JStr []))
                               (py_or (total_charged r) (JInt 0))))
            else CROSS_MARK @ '' BLOCKED: ''
                 @ snd (validate_revenue_model_rules repr (revenue_model r)
                               (py_or (payment_method r) (JStr []))
                               (py_or (total_charged r) (JInt 0))))"
proof -
  let ?pd = "body_if_ok (session (Product_GET (py_str repr (article_id r0))))"
  have art: "truthy (article_id r0)"
    using run reached by (auto simp: revenue_model_validation_def Let_def split: if_splits)
  have pd: "truthy ?pd"
    using run reached art
    by (auto simp: revenue_model_validation_def get_product_details_def Let_def
        split: if_splits)
  obtain r1 where r1: "read_revenue_model ?pd r0 = Inr r1"
    using run reached art pd
    by (cases "read_revenue_model ?pd r0")
       (auto simp: revenue_model_validation_def get_product_details_def Let_def)
  then have "r1 = r0\<lparr>revenue_model := revenue_model r1\<rparr>"
    by (rule read_revenue_model_frame)
  then obtain mm where m: "r1 = r0\<lparr>revenue_model := mm\<rparr>" by blast
  have rm: "truthy (revenue_model r1)"
    using run reached art pd r1
    by (auto simp: revenue_model_validation_def get_product_details_def Let_def
        split: if_splits)
  show ?thesis
    using run art pd r1 rm m
    by (auto simp: revenue_model_validation_def get_product_details_def Let_def
        split: prod.splits)
qed

text \<open>The V041 block writes no log record of the revenue-model stage, and it hands on only
  with the flag set and the step \<^verbatim>\<open>2.1. V041 - Ignored, validating revenue model\<close>.\<close>

lemma credit_memo_scan_no_log: "Logged s \<notin> set (snd (credit_memo_scan repr session cs))"
proof (induction cs)
  case Nil
  then show ?case by simp
next
  case (Cons c cs)
  have one: "Logged s \<notin> set (snd (canceled_has_credit_memo repr session c))"
    by (auto simp: canceled_has_credit_memo_def get_order_details_def Let_def
        split: sum.splits)
  show ?case
    using one Cons.IH
    by (auto split: prod.splits sum.splits bool.splits)
qed

lemma get_multiple_orders_no_log:
  "Logged s \<notin> set (snd (get_multiple_orders repr session article))"
  by (auto simp: get_multiple_orders_def split: sum.splits)

lemma v041_resolution_effects:
  assumes "v041_resolution repr session oid r0 = (out, fx)"
  shows "Logged s \<notin> set fx"
proof -
  have a: "\<And>x y. get_multiple_orders repr session (article_id r0) = (x, y)
             \<Longrightarrow> Logged s \<notin> set y"
    using get_multiple_orders_no_log [of s repr session "article_id r0"] by simp
  have b: "\<And>cs x y. credit_memo_scan repr session cs = (x, y) \<Longrightarrow> Logged s \<notin> set y"
    using credit_memo_scan_no_log [of s repr session] by (metis snd_conv)
  show ?thesis
    using assms
    by (auto simp: v041_resolution_def Let_def split: prod.splits sum.splits if_splits
        dest: a b)
qed

lemma v041_resolution_continue:
  assumes "v041_resolution repr session oid r0 = (Inr (Continue r3), fx)"
  shows "is_v041_error r3
       \<and> validation_step r3 = ''2.1. V041 - Ignored, validating revenue model''"
  using assms
  by (auto simp: v041_resolution_def Let_def split: prod.splits sum.splits if_splits)

lemma read_order_keeps_v041_flag:
  assumes "read_order data r0 = Inr (Continue (r1, h))"
  shows "is_v041_error r1 = is_v041_error r0"
  using assms
  by (auto simp: read_order_def read_article_def read_journal_def read_payment_def
      and_then_def split: sum.splits if_splits)

text \<open>
  C8, as the code has it. Take an evaluation that returns with the V041 flag set and whose
  effects include the log record written right before the rule set is called: the V041
  error was waived and the revenue-model stage reached its rules. Then the step is
  \<^verbatim>\<open>2.1. V041 - Ignored, validating revenue model\<close> and the verdict is the rule set's. When
  the rule set allows, the reason is the rule set's reason behind the prefix
  \<^verbatim>\<open>CAN RESEND: V041 ignored + \<close>; when it denies, the reason is the rule set's reason behind
  \<^verbatim>\<open>BLOCKED: \<close> and carries no mark of the waiver.
\<close>

theorem waiver_is_tagged_on_approval_only:
  assumes run: "validate_order repr session oid ctx = (Inr r, fx)"
      and waived: "is_v041_error r"
      and reached: "Logged ''   Applying Revenue Model rules...'' \<in> set fx"
  shows "validation_step r = ''2.1. V041 - Ignored, validating revenue model''
       \<and> can_resend r = fst (validate_revenue_model_rules repr (revenue_model r)
                               (py_or (payment_method r) (JStr []))
                               (py_or (total_charged r) (JInt 0)))
       \<and> validation_reason r =
           (if can_resend r
            then CHECK_MARK @ '' CAN RESEND: V041 ignored + ''
                 @ snd (validate_revenue_model_rules repr (revenue_model r)
                               (py_or (payment_method r) (JStr []))
                               (py_or (total_charged r) (JInt 0)))
            else CROSS_MARK @ '' BLOCKED: ''
                 @ snd (validate_revenue_model_rules repr (revenue_model r)
                               (py_or (payment_method r) (JStr []))
                               (py_or (total_charged r) (JInt 0))))"
proof -
  let ?data = "body_if_ok (session (Order_GET oid))"
  let ?mark = "Logged ''   Applying Revenue Model rules...''"
  have data: "truthy ?data"
    using run reached
    by (auto simp: validate_order_def get_order_details_def Let_def split: if_splits)
  obtain r1 h where read: "read_order ?data (new_result oid ctx) = Inr (Continue (r1, h))"
    using run reached data
    by (auto simp: validate_order_def get_order_details_def Let_def
        split: if_splits sum.splits flow.splits)
  have flag1: "\<not> is_v041_error r1"
    using read_order_keeps_v041_flag [OF read] by (simp add: new_result_def)
  have live: "order_status r1 \<noteq> JStr ''OrderCanceledInAMP''"
    using run reached data read
    by (auto simp: validate_order_def get_order_details_def Let_def split: if_splits)
  obtain err code desc where hist: "check_error_in_history h = Inr (err, code, desc)"
    using run reached data read live
    by (cases "check_error_in_history h")
       (auto simp: validate_order_def get_order_details_def Let_def)
  let ?r2 = "r1\<lparr>has_error := err, error_code := code, error_description := desc\<rparr>"
  have after: "validate_order repr session oid ctx =
      (if err then
         (if code = Some ''V041'' then
            (case v041_resolution repr session oid ?r2 of
               (Inl e, fx1) \<Rightarrow> (Inl e, [Sent (Order_GET oid)] @ fx1)
             | (Inr (Return result3), fx1) \<Rightarrow> (Inr result3, [Sent (Order_GET oid)] @ fx1)
             | (Inr (Continue result3), fx1) \<Rightarrow>
                 (let (out, fx2) = revenue_model_validation repr session result3
                  in (out, [Sent (Order_GET oid)] @ fx1 @ fx2)))
          else
            (Inr (?r2\<lparr>can_resend := False,
               validation_reason := ''Error detected: ''
                 @ (case code of None \<Rightarrow> ''DESCONHECIDO''
                    | Some c \<Rightarrow> if c = [] then ''DESCONHECIDO'' else c)
                 @ '' - '' @ py_str repr desc,
               validation_step := ''2.2. Other error detected''\<rparr>), [Sent (Order_GET oid)]))
       else
         (let (out, fx2) = revenue_model_validation repr session
                (?r2\<lparr>validation_step := ''3. No errors, validating revenue model''\<rparr>)
          in (out, [Sent (Order_GET oid)] @ fx2)))"
    using data read live hist
    by (simp add: validate_order_def get_order_details_def Let_def)
  show ?thesis
  proof (cases err)
    case False
    obtain out fx2 where rv: "revenue_model_validation repr session
          (?r2\<lparr>validation_step := ''3. No errors, validating revenue model''\<rparr>) = (out, fx2)"
      by (cases "revenue_model_validation repr session
                (?r2\<lparr>validation_step := ''3. No errors, validating revenue model''\<rparr>)")
    then have "out = Inr r" "?mark \<in> set fx2"
      using run reached after False by auto
    then have "is_v041_error r = is_v041_error
                (?r2\<lparr>validation_step := ''3. No errors, validating revenue model''\<rparr>)"
      using revenue_model_validation_rules_reached rv by blast
    then show ?thesis using waived flag1 by simp
  next
    case True
    show ?thesis
    proof (cases "code = Some ''V041''")
      case False
      then show ?thesis using run reached after True by auto
    next
      case v041: True
      obtain res fx1 where v: "v041_resolution repr session oid ?r2 = (res, fx1)"
        by (cases "v041_resolution repr session oid ?r2")
      have nolog: "?mark \<notin> set fx1" using v by (rule v041_resolution_effects)
      obtain r3 where cont: "res = Inr (Continue r3)"
        using run reached after True v041 v nolog
        by (cases res) (auto split: flow.splits)
      obtain out fx2 where rv: "revenue_model_validation repr session r3 = (out, fx2)"
        by (cases "revenue_model_validation repr session r3")
      then have "out = Inr r" "?mark \<in> set fx2"
        using run reached after True v041 v cont nolog by auto
      then have rules: "is_v041_error r = is_v041_error r3
       \<and> validation_step r = validation_step r3
       \<and> can_resend r = fst (validate_revenue_model_rules repr (revenue_model r)
                               (py_or (payment_method r) (JStr []))
                               (py_or (total_charged r) (JInt 0)))
       \<and> validation_reason r =
           (if can_resend r then
              (if is_v041_error r3
               then CHECK_MARK @ '' CAN RESEND: V041 ignored + ''
                    @ snd (validate_revenue_model_rules repr (revenue_model r)
                               (py_or (payment_method r) (JStr []))
                               (py_or (total_charged r) (JInt 0)))
               else CHECK_MARK @ '' CAN RESEND: ''
                    @ snd (validate_revenue_model_rules repr (revenue_model r)
                               (py_or (payment_method r) (JStr []))
                               (py_or (total_charged r) (JInt 0))))
            else CROSS_MARK @ '' BLOCKED: ''
                 @ snd (validate_revenue_model_rules repr (revenue_model r)
                               (py_or (payment_method r) (JStr []))
                               (py_or (total_charged r) (JInt 0))))"
        using revenue_model_validation_rules_reached rv by blast
      have "is_v041_error r3
          \<and> validation_step r3 = ''2.1. V041 - Ignored, validating revenue model''"
        using v cont v041_resolution_continue by blast
      then show ?thesis using rules by simp
    qed
  qed
qed

text \<open>The two runs of the fixture: the three orders \<^verbatim>\<open>A1\<close> (the order itself), \<^verbatim>\<open>A2\<close> and
  \<^verbatim>\<open>A3\<close> (canceled, the second with a credit memo), once with revenue model \<^verbatim>\<open>OA\<close> paid
  by credit card, once with \<^verbatim>\<open>OO\<close> and nothing charged.\<close>

lemma waived_then_allowed_run:
  "validate_order plain_repr
     (v041_service [sibling ''A1'' ''OrderPlaced'' False,
                    sibling ''A2'' ''OrderCanceledInAMP'' True,
                    sibling ''A3'' ''OrderCanceledInAMP'' True]
        ''OA'' ''CreditCard'' (JInt 0))
     ''A1'' []
   = (Inr ((new_result ''A1'' [])
        \<lparr>article_id := JStr ''PD100'', order_status := JStr ''OrderPlaced'',
         payment_method := JStr ''CreditCard'', total_charged := JInt 0,
         journal_name := JStr ''Journal'', revenue_model := JStr ''OA'',
         article_doi := JStr ''10.1002/x'', has_error := True, error_code := Some ''V041'',
         error_description := JStr ''V041: duplicate order'', is_v041_error := True,
         other_orders := JList [sibling ''A1'' ''OrderPlaced'' False,
                                sibling ''A2'' ''OrderCanceledInAMP'' True,
                                sibling ''A3'' ''OrderCanceledInAMP'' True],
         other_orders_not_canceled := 0, canceled_order_has_credit_memo := Some True,
         can_resend := True,
         validation_reason := CHECK_MARK
           @ '' CAN RESEND: V041 ignored + OA + CreditCard (regardless of totalChargedAmount)'',
         validation_step := ''2.1. V041 - Ignored, validating revenue model''\<rparr>),
      [Sent (Order_GET ''A1''), Sent (Orders_GET ''100''), Sent (Order_GET ''A2''),
       Sent (Order_GET ''A3''), Logged ''STEP 4: Validating Revenue Model'',
       Sent (Product_GET ''PD100''), Logged ''   Applying Revenue Model rules...''])"
  by (simp add: run_defs)

lemma waived_then_denied_run:
  "validate_order plain_repr
     (v041_service [sibling ''A1'' ''OrderPlaced'' False,
                    sibling ''A2'' ''OrderCanceledInAMP'' True,
                    sibling ''A3'' ''OrderCanceledInAMP'' True]
        ''OO'' ''CreditCard'' (JInt 0))
     ''A1'' []
   = (Inr ((new_result ''A1'' [])
        \<lparr>article_id := JStr ''PD100'', order_status := JStr ''OrderPlaced'',
         payment_method := JStr ''CreditCard'', total_charged := JInt 0,
         journal_name := JStr ''Journal'', revenue_model := JStr ''OO'',
         article_doi := JStr ''10.1002/x'', has_error := True, error_code := Some ''V041'',
         error_description := JStr ''V041: duplicate order'', is_v041_error := True,
         other_orders := JList [sibling ''A1'' ''OrderPlaced'' False,
                                sibling ''A2'' ''OrderCanceledInAMP'' True,
                                sibling ''A3'' ''OrderCanceledInAMP'' True],
         other_orders_not_canceled := 0, canceled_order_has_credit_memo := Some True,
         can_resend := False,
         validation_reason := CROSS_MARK @ '' BLOCKED: OO with totalChargedAmount = 0'',
         validation_step := ''2.1. V041 - Ignored, validating revenue model''\<rparr>),
      [Sent (Order_GET ''A1''), Sent (Orders_GET ''100''), Sent (Order_GET ''A2''),
       Sent (Order_GET ''A3''), Logged ''STEP 4: Validating Revenue Model'',
       Sent (Product_GET ''PD100''), Logged ''   Applying Revenue Model rules...''])"
  by (simp add: run_defs)

theorem waiver_is_tagged_on_approval_only_witness:
  "is_v041_error (projr (fst (validate_order plain_repr
       (v041_service [sibling ''A1'' ''OrderPlaced'' False,
                      sibling ''A2'' ''OrderCanceledInAMP'' True,
                      sibling ''A3'' ''OrderCanceledInAMP'' True]
          ''OA'' ''CreditCard'' (JInt 0)) ''A1'' [])))
   \<and> Logged ''   Applying Revenue Model rules...''
       \<in> set (snd (validate_order plain_repr
            (v041_service [sibling ''A1'' ''OrderPlaced'' False,
                           sibling ''A2'' ''OrderCanceledInAMP'' True,
                           sibling ''A3'' ''OrderCanceledInAMP'' True]
               ''OA'' ''CreditCard'' (JInt 0)) ''A1'' []))
   \<and> validation_reason (projr (fst (validate_order plain_repr
       (v041_service [sibling ''A1'' ''OrderPlaced'' False,
                      sibling ''A2'' ''OrderCanceledInAMP'' True,
                      sibling ''A3'' ''OrderCanceledInAMP'' True]
          ''OA'' ''CreditCard'' (JInt 0)) ''A1'' [])))
     = CHECK_MARK
       @ '' CAN RESEND: V041 ignored + OA + CreditCard (regardless of totalChargedAmount)''
   \<and> validation_reason (projr (fst (validate_order plain_repr
       (v041_service [sibling ''A1'' ''OrderPlaced'' False,
                      sibling ''A2'' ''OrderCanceledInAMP'' True,
                      sibling ''A3'' ''OrderCanceledInAMP'' True]
          ''OO'' ''CreditCard'' (JInt 0)) ''A1'' [])))
     = CROSS_MARK @ '' BLOCKED: OO with totalChargedAmount = 0''"
proof -
  let ?allowed = "validate_order plain_repr
       (v041_service [sibling ''A1'' ''OrderPlaced'' False,
                      sibling ''A2'' ''OrderCanceledInAMP'' True,
                      sibling ''A3'' ''OrderCanceledInAMP'' True]
          ''OA'' ''CreditCard'' (JInt 0)) ''A1'' []"
  let ?denied = "validate_order plain_repr
       (v041_service [sibling ''A1'' ''OrderPlaced'' False,
                      sibling ''A2'' ''OrderCanceledInAMP'' True,
                      sibling ''A3'' ''OrderCanceledInAMP'' True]
          ''OO'' ''CreditCard'' (JInt 0)) ''A1'' []"
  have a1: "?allowed = (Inr (projr (fst ?allowed)), snd ?allowed)"
    by (simp add: waived_then_allowed_run)
  have a2: "is_v041_error (projr (fst ?allowed))"
    by (simp add: waived_then_allowed_run)
  have a3: "Logged ''   Applying Revenue Model rules...'' \<in> set (snd ?allowed)"
    by (simp add: waived_then_allowed_run)
  have d1: "?denied = (Inr (projr (fst ?denied)), snd ?denied)"
    by (simp add: waived_then_denied_run)
  have d2: "is_v041_error (projr (fst ?denied))"
    by (simp add: waived_then_denied_run)
  have d3: "Logged ''   Applying Revenue Model rules...'' \<in> set (snd ?denied)"
    by (simp add: waived_then_denied_run)
  show ?thesis
    using a2 a3 waiver_is_tagged_on_approval_only [OF a1 a2 a3]
      waiver_is_tagged_on_approval_only [OF d1 d2 d3]
    by (simp add: waived_then_allowed_run waived_then_denied_run
        validate_revenue_model_rules_def py_or_def plain_repr_def)
qed

text \<open>The claim as worded has the reason tagged in both outcomes. In the denied run the
  V041 flag is set and the rule set was reached, and the reason names neither V041 nor the
  waiver.\<close>

theorem waiver_not_tagged_on_denial_counterexample:
  "map_sum id is_v041_error (fst (validate_order plain_repr
       (v041_service [sibling ''A1'' ''OrderPlaced'' False,
                      sibling ''A2'' ''OrderCanceledInAMP'' True,
                      sibling ''A3'' ''OrderCanceledInAMP'' True]
          ''OO'' ''CreditCard'' (JInt 0)) ''A1'' [])) = Inr True
   \<and> Logged ''   Applying Revenue Model rules...''
       \<in> set (snd (validate_order plain_repr
            (v041_service [sibling ''A1'' ''OrderPlaced'' False,
                           sibling ''A2'' ''OrderCanceledInAMP'' True,
                           sibling ''A3'' ''OrderCanceledInAMP'' True]
               ''OO'' ''CreditCard'' (JInt 0)) ''A1'' []))
   \<and> map_sum id validation_reason (fst (validate_order plain_repr
       (v041_service [sibling ''A1'' ''OrderPlaced'' False,
                      sibling ''A2'' ''OrderCanceledInAMP'' True,
                      sibling ''A3'' ''OrderCanceledInAMP'' True]
          ''OO'' ''CreditCard'' (JInt 0)) ''A1'' []))
     = Inr (CROSS_MARK @ '' BLOCKED: OO with totalChargedAmount = 0'')
   \<and> \<not> substring ''V041'' (CROSS_MARK @ '' BLOCKED: OO with totalChargedAmount = 0'')
   \<and> \<not> substring ''ignored'' (CROSS_MARK @ '' BLOCKED: OO with totalChargedAmount = 0'')"
  by (simp add: waived_then_denied_run CROSS_MARK_def)

subsection \<open>V041: the partition of the other orders\<close>

text \<open>On a list of dicts the two comprehensions raise nothing and select what the
  specification's wording selects.\<close>

lemma filter_err_is_not_canceled:
  assumes "\<forall>s\<in>set xs. \<exists>kvs. s = JDict kvs"
  shows "filter_err (is_not_canceled repr oid) xs = Inr (filter (spec_not_canceled repr oid) xs)"
  using assms
proof (induction xs)
  case Nil
  then show ?case by simp
next
  case (Cons x xs)
  then obtain kvs where x: "x = JDict kvs" by auto
  have "is_not_canceled repr oid x = Inr (spec_not_canceled repr oid x)"
    unfolding x by (simp add: is_not_canceled_def spec_not_canceled_def)
  then show ?case using Cons by simp
qed

lemma filter_err_is_canceled:
  assumes "\<forall>s\<in>set xs. \<exists>kvs. s = JDict kvs"
  shows "filter_err (is_canceled repr oid) xs = Inr (filter (spec_canceled repr oid) xs)"
  using assms
proof (induction xs)
  case Nil
  then show ?case by simp
next
  case (Cons x xs)
  then obtain kvs where x: "x = JDict kvs" by auto
  have "is_canceled repr oid x = Inr (spec_canceled repr oid x)"
    unfolding x by (simp add: is_canceled_def spec_canceled_def)
  then show ?case using Cons by simp
qed

lemma read_order_keeps_error:
  assumes "read_order data r0 = Inr (Continue (r1, h))"
  shows "error r1 = error r0"
  using assms
  by (auto simp: read_order_def read_article_def read_journal_def read_payment_def
      and_then_def split: sum.splits if_splits)

text \<open>
  C1. Take an order that was fetched and read (as \<open>r1\<close>, with its history), that is not
  canceled, whose history gives the error code \<^verbatim>\<open>V041\<close>, that has an article id, and for
  whose article the orders query returned a non-empty list of dicts. If at least one of
  them is not canceled in the specification's sense, the evaluation ends there, after the
  orders query, with a deny at step \<^verbatim>\<open>2.1. V041 - Multiple active orders\<close> whose reason
  cites the number of such orders: between \<^verbatim>\<open>V041 error: \<close> and the rest of the sentence
  stands a text \<open>count\<close> that reads, digit by digit, as the decimal numeral of that number
  (\<open>decimal_value\<close>, which does not depend on how the evaluation writes numbers). Nothing
  is assumed about the canceled orders of the list or their credit memos: none of them is
  fetched.
\<close>

theorem v041_active_sibling_is_denied:
  assumes fetched: "fst (get_order_details session oid) = data" and usable: "truthy data"
      and read: "read_order data (new_result oid ctx) = Inr (Continue (r1, history))"
      and live: "order_status r1 \<noteq> JStr ''OrderCanceledInAMP''"
      and v041: "check_error_in_history history = Inr (True, Some ''V041'', desc)"
      and art: "truthy (article_id r1)"
      and sib: "get_multiple_orders repr session (article_id r1) = (Inr (JList siblings), fx1)"
      and some: "siblings \<noteq> []"
      and dicts: "\<forall>s\<in>set siblings. \<exists>kvs. s = JDict kvs"
      and active: "filter (spec_not_canceled repr oid) siblings \<noteq> []"
  shows "\<exists>r count. validate_order repr session oid ctx = (Inr r, Sent (Order_GET oid) # fx1)
           \<and> \<not> can_resend r
           \<and> validation_reason r =
                ''V041 error: '' @ count
                @ '' non-canceled order(s) detected - requires VIAX review''
           \<and> decimal_value count
                = Some (length (filter (spec_not_canceled repr oid) siblings))
           \<and> count = str_nat (length (filter (spec_not_canceled repr oid) siblings))
           \<and> validation_step r = ''2.1. V041 - Multiple active orders''
           \<and> other_orders_not_canceled r = length (filter (spec_not_canceled repr oid) siblings)
           \<and> error r = None"
proof -
  have D: "body_if_ok (session (Order_GET oid)) = data"
    using fetched by (simp add: get_order_details_def)
  have E: "error r1 = None"
    using read_order_keeps_error [OF read] by (simp add: new_result_def)
  have N: "filter_err (is_not_canceled repr oid) siblings
             = Inr (filter (spec_not_canceled repr oid) siblings)"
    using dicts by (rule filter_err_is_not_canceled)
  show ?thesis
    unfolding validate_order_def get_order_details_def v041_resolution_def
    using D usable read live v041 art sib some N active E
    by (simp add: Let_def decimal_value_str_nat)
qed

theorem v041_active_sibling_is_denied_witness:
  "filter (spec_not_canceled plain_repr ''A1'') busy_article
     = sibling ''A5'' ''OrderCanceledInAMP'' False
       # map (\<lambda>uid. sibling uid ''OrderPlaced'' False)
           [''B01'', ''B02'', ''B03'', ''B04'', ''B05'', ''B06'', ''B07'', ''B08'', ''B09'',
            ''B10'', ''B11'']
   \<and> fst (canceled_has_credit_memo plain_repr
        (v041_service busy_article ''OA'' ''CreditCard'' (JInt 0))
        (sibling ''A3'' ''OrderCanceledInAMP'' True)) = Inr True
   \<and> (\<exists>r. validate_order plain_repr
        (v041_service busy_article ''OA'' ''CreditCard'' (JInt 0))
        ''A1'' [] = (Inr r, [Sent (Order_GET ''A1''), Sent (Orders_GET ''100'')])
         \<and> \<not> can_resend r
         \<and> validation_reason r
             = ''V041 error: 12 non-canceled order(s) detected - requires VIAX review''
         \<and> validation_step r = ''2.1. V041 - Multiple active orders''
         \<and> other_orders_not_canceled r = 12
         \<and> error r = None)"
proof -
  let ?S = "v041_service busy_article ''OA'' ''CreditCard'' (JInt 0)"
  let ?data = "order_json ''OrderPlaced'' [event ''Error'' ''V041: duplicate order'']
                 ''CreditCard'' (JInt 0)"
  let ?r1 = "(new_result ''A1'' [])
        \<lparr>article_id := JStr ''PD100'', order_status := JStr ''OrderPlaced'',
         payment_method := JStr ''CreditCard'', total_charged := JInt 0,
         journal_name := JStr ''Journal'', article_doi := JStr ''10.1002/x''\<rparr>"
  have fetched: "fst (get_order_details ?S ''A1'') = ?data"
    by (simp add: get_order_details_def v041_service_def service_def body_if_ok_def)
  have usable: "truthy ?data" by (simp add: order_json_def)
  have read: "read_order ?data (new_result ''A1'' [])
                = Inr (Continue (?r1, JList [event ''Error'' ''V041: duplicate order'']))"
    by (simp add: order_json_def read_order_def read_article_def read_journal_def
        read_payment_def dict_get_def new_result_def)
  have live: "order_status ?r1 \<noteq> JStr ''OrderCanceledInAMP''" by simp
  have v041: "check_error_in_history (JList [event ''Error'' ''V041: duplicate order''])
                = Inr (True, Some ''V041'', JStr ''V041: duplicate order'')"
    by (simp add: check_error_in_history_def event_def dict_get_def is_error_type_def
        extract_error_code_def)
  have art: "truthy (article_id ?r1)" by simp
  have sib: "get_multiple_orders plain_repr ?S (article_id ?r1)
               = (Inr (JList busy_article), [Sent (Orders_GET ''100'')])"
    by (simp add: get_multiple_orders_def clean_article_id_def orders_payload_def
        v041_service_def service_def)
  have some: "busy_article \<noteq> []" by (simp add: busy_article_def)
  have dicts: "\<forall>s\<in>set busy_article. \<exists>kvs. s = JDict kvs"
    by (simp add: busy_article_def sibling_def)
  have part: "filter (spec_not_canceled plain_repr ''A1'') busy_article
                = sibling ''A5'' ''OrderCanceledInAMP'' False
                  # map (\<lambda>uid. sibling uid ''OrderPlaced'' False)
                      [''B01'', ''B02'', ''B03'', ''B04'', ''B05'', ''B06'', ''B07'', ''B08'',
                       ''B09'', ''B10'', ''B11'']"
    by (simp add: busy_article_def spec_not_canceled_def sibling_def dict_get_def)
  have len: "length (filter (spec_not_canceled plain_repr ''A1'') busy_article) = 12"
    unfolding part by simp
  have active: "filter (spec_not_canceled plain_repr ''A1'') busy_article \<noteq> []"
    unfolding part by simp
  have memo: "fst (canceled_has_credit_memo plain_repr ?S
                     (sibling ''A3'' ''OrderCanceledInAMP'' True)) = Inr True"
    by (simp add: run_defs)
  have twelve: "str_nat 12 = ''12''" by (simp add: str_nat.simps digit_char_def)
  have verdict: "\<exists>r. validate_order plain_repr ?S ''A1'' []
             = (Inr r, [Sent (Order_GET ''A1''), Sent (Orders_GET ''100'')])
         \<and> \<not> can_resend r
         \<and> validation_reason r
             = ''V041 error: 12 non-canceled order(s) detected - requires VIAX review''
         \<and> validation_step r = ''2.1. V041 - Multiple active orders''
         \<and> other_orders_not_canceled r = 12
         \<and> error r = None"
    using v041_active_sibling_is_denied
            [OF fetched usable read live v041 art sib some dicts active]
    unfolding len by (auto simp: twelve)
  show ?thesis
    by (intro conjI part memo verdict)
qed

subsection \<open>V041: the scan of the canceled orders\<close>

text \<open>The scan in closed form, when no test raises: the orders are tested in listed order
  up to and including the first with a credit memo, and the effects are those of the tests
  made.\<close>

lemma credit_memo_scan_closed:
  assumes "\<forall>c\<in>set cs. \<exists>b. fst (canceled_has_credit_memo repr session c) = Inr b"
  shows "credit_memo_scan repr session cs =
     (Inr (\<exists>c\<in>set cs. fst (canceled_has_credit_memo repr session c) = Inr True),
      concat (map (\<lambda>c. snd (canceled_has_credit_memo repr session c))
        (takeWhile (\<lambda>c. fst (canceled_has_credit_memo repr session c) \<noteq> Inr True) cs
         @ take 1 (dropWhile (\<lambda>c. fst (canceled_has_credit_memo repr session c) \<noteq> Inr True)
                     cs))))"
  using assms
proof (induction cs)
  case Nil
  then show ?case by simp
next
  case (Cons c cs)
  then obtain b where b: "fst (canceled_has_credit_memo repr session c) = Inr b" by auto
  then have whole: "canceled_has_credit_memo repr session c
                      = (Inr b, snd (canceled_has_credit_memo repr session c))"
    by (metis prod.collapse)
  have IH: "credit_memo_scan repr session cs =
     (Inr (\<exists>c\<in>set cs. fst (canceled_has_credit_memo repr session c) = Inr True),
      concat (map (\<lambda>c. snd (canceled_has_credit_memo repr session c))
        (takeWhile (\<lambda>c. fst (canceled_has_credit_memo repr session c) \<noteq> Inr True) cs
         @ take 1 (dropWhile (\<lambda>c. fst (canceled_has_credit_memo repr session c) \<noteq> Inr True)
                     cs))))"
    using Cons by simp
  show ?case
  proof (cases b)
    case True
    have "credit_memo_scan repr session (c # cs)
            = (Inr True, snd (canceled_has_credit_memo repr session c))"
      using True by (subst credit_memo_scan.simps, subst whole) simp
    then show ?thesis using b True by simp
  next
    case False
    have "credit_memo_scan repr session (c # cs)
            = (fst (credit_memo_scan repr session cs),
               snd (canceled_has_credit_memo repr session c)
               @ snd (credit_memo_scan repr session cs))"
      using False by (subst credit_memo_scan.simps, subst whole) (simp add: split_beta)
    then show ?thesis using b False IH by simp
  qed
qed




text \<open>The evaluation of a V041 order none of whose other orders is active, up to the scan.\<close>

lemma v041_none_active:
  assumes fetched: "fst (get_order_details session oid) = data" and usable: "truthy data"
      and read: "read_order data (new_result oid ctx) = Inr (Continue (r1, history))"
      and live: "order_status r1 \<noteq> JStr ''OrderCanceledInAMP''"
      and v041: "check_error_in_history history = Inr (True, Some ''V041'', desc)"
      and art: "truthy (article_id r1)"
      and sib: "get_multiple_orders repr session (article_id r1) = (Inr (JList siblings), fx1)"
      and some: "siblings \<noteq> []"
      and dicts: "\<forall>s\<in>set siblings. \<exists>kvs. s = JDict kvs"
      and none_active: "filter (spec_not_canceled repr oid) siblings = []"
      and scan: "credit_memo_scan repr session (filter (spec_canceled repr oid) siblings)
                   = (Inr found, fx2)"
  shows "validate_order repr session oid ctx =
     (let result = r1\<lparr>has_error := True, error_code := Some ''V041'',
                       error_description := desc, is_v041_error := True,
                       other_orders := JList siblings, other_orders_not_canceled := 0\<rparr>
      in if filter (spec_canceled repr oid) siblings = [] then
           (Inr (result\<lparr>can_resend := False,
                        validation_reason := ''V041 error: no canceled order found'',
                        validation_step := ''2.1. V041 - No canceled orders''\<rparr>),
            Sent (Order_GET oid) # fx1)
         else if \<not> found then
           (Inr (result\<lparr>canceled_order_has_credit_memo := Some False, can_resend := False,
                        validation_reason :=
                          ''V041 error: canceled order without credit memo''
                          @ '' - requires VIAX review'',
                        validation_step := ''2.1. V041 - No credit memo''\<rparr>),
            Sent (Order_GET oid) # fx1 @ fx2)
         else
           (fst (revenue_model_validation repr session
                   (result\<lparr>canceled_order_has_credit_memo := Some True,
                           validation_step :=
                             ''2.1. V041 - Ignored, validating revenue model''\<rparr>)),
            Sent (Order_GET oid) # fx1 @ fx2
            @ snd (revenue_model_validation repr session
                     (result\<lparr>canceled_order_has_credit_memo := Some True,
                             validation_step :=
                               ''2.1. V041 - Ignored, validating revenue model''\<rparr>))))"
proof -
  have D: "body_if_ok (session (Order_GET oid)) = data"
    using fetched by (simp add: get_order_details_def)
  have N: "filter_err (is_not_canceled repr oid) siblings = Inr []"
    using filter_err_is_not_canceled [OF dicts, of repr oid] none_active by simp
  have C: "filter_err (is_canceled repr oid) siblings
             = Inr (filter (spec_canceled repr oid) siblings)"
    using dicts by (rule filter_err_is_canceled)
  show ?thesis
    unfolding validate_order_def get_order_details_def v041_resolution_def
    using D usable read live v041 art sib some N C scan
    by (simp add: Let_def split_beta)
qed



subsection \<open>V041: canceled orders that the scan passes over\<close>

lemma skipped_has_no_credit_memo:
  assumes "spec_skipped repr session c"
  shows "fst (canceled_has_credit_memo repr session c) = Inr False"
proof (cases c)
  case (JDict kvs)
  show ?thesis
  proof (cases "truthy (dict_get kvs ''orderUniqueId'' JNull)")
    case False
    then show ?thesis using JDict by (simp add: canceled_has_credit_memo_def)
  next
    case True
    let ?data = "body_if_ok (session
                   (Order_GET (py_str repr (dict_get kvs ''orderUniqueId'' JNull))))"
    have skipped: "case ?data of JDict body \<Rightarrow> body = [] \<or> map_of body ''orderDetails'' = None
                   | other \<Rightarrow> \<not> truthy other"
      using assms JDict True by (simp add: spec_skipped_def get_order_details_def)
    have "and_then (if truthy ?data then py_in ''orderDetails'' ?data else Inr False)
            (\<lambda>usable.
               if usable then
                 and_then (py_getitem ?data ''orderDetails'') (\<lambda>details.
                 and_then (py_get details ''orderHistory'' (JList [])) (\<lambda>canceled_history.
                 check_credit_memo_in_history canceled_history))
               else Inr False) = Inr False"
      using skipped by (cases ?data) (auto simp: map_of_eq_None_iff)
    then show ?thesis
      using JDict True by (simp add: canceled_has_credit_memo_def get_order_details_def)
  qed
qed (use assms in \<open>simp_all add: spec_skipped_def\<close>)

text \<open>
  C10. A canceled order whose id is absent, whose own fetch brings nothing, or whose
  response has no order-details section counts as having no credit memo, raises nothing, and
  the scan goes on with the next one. Take a V041 order as in C1, none of whose other orders
  is active, with at least one canceled order, all of them passed over in this way: the
  evaluation ends with the deny
  \<^verbatim>\<open>V041 error: canceled order without credit memo - requires VIAX review\<close> at step
  \<^verbatim>\<open>2.1. V041 - No credit memo\<close>; the error marker is not set, and the summary counts the
  order as blocked by the rules, not as a query error.
\<close>

theorem skipped_canceled_orders_are_denied:
  assumes fetched: "fst (get_order_details session oid) = data" and usable: "truthy data"
      and read: "read_order data (new_result oid ctx) = Inr (Continue (r1, history))"
      and live: "order_status r1 \<noteq> JStr ''OrderCanceledInAMP''"
      and v041: "check_error_in_history history = Inr (True, Some ''V041'', desc)"
      and art: "truthy (article_id r1)"
      and sib: "get_multiple_orders repr session (article_id r1) = (Inr (JList siblings), fx1)"
      and some: "siblings \<noteq> []"
      and dicts: "\<forall>s\<in>set siblings. \<exists>kvs. s = JDict kvs"
      and none_active: "filter (spec_not_canceled repr oid) siblings = []"
      and some_canceled: "filter (spec_canceled repr oid) siblings \<noteq> []"
      and skipped: "\<forall>c\<in>set (filter (spec_canceled repr oid) siblings).
                      spec_skipped repr session c"
  shows "(\<exists>r. validate_order repr session oid ctx =
            (Inr r, Sent (Order_GET oid) # fx1
                    @ concat (map (\<lambda>c. snd (canceled_has_credit_memo repr session c))
                                (filter (spec_canceled repr oid) siblings)))
           \<and> \<not> can_resend r
           \<and> validation_reason r =
                ''V041 error: canceled order without credit memo - requires VIAX review''
           \<and> validation_step r = ''2.1. V041 - No credit memo''
           \<and> canceled_order_has_credit_memo r = Some False
           \<and> error r = None
           \<and> blocked [r] = 1 \<and> errors [r] = 0)
       \<and> (\<forall>c rest. spec_skipped repr session c \<longrightarrow>
             fst (canceled_has_credit_memo repr session c) = Inr False
             \<and> credit_memo_scan repr session (c # rest)
                 = (fst (credit_memo_scan repr session rest),
                    snd (canceled_has_credit_memo repr session c)
                    @ snd (credit_memo_scan repr session rest)))"
proof -
  let ?canceled = "filter (spec_canceled repr oid) siblings"
  have none: "\<forall>c\<in>set ?canceled. fst (canceled_has_credit_memo repr session c) = Inr False"
    using skipped skipped_has_no_credit_memo by blast
  then have no_raise: "\<forall>c\<in>set ?canceled.
                         \<exists>b. fst (canceled_has_credit_memo repr session c) = Inr b"
    by blast
  have all: "takeWhile (\<lambda>c. fst (canceled_has_credit_memo repr session c) \<noteq> Inr True)
               ?canceled = ?canceled"
    using none by (simp add: takeWhile_eq_all_conv)
  have rest: "dropWhile (\<lambda>c. fst (canceled_has_credit_memo repr session c) \<noteq> Inr True)
                ?canceled = []"
    using none by simp
  have found: "\<not> (\<exists>c\<in>set ?canceled. fst (canceled_has_credit_memo repr session c) = Inr True)"
    using none by simp
  have scan: "credit_memo_scan repr session ?canceled =
                (Inr False,
                 concat (map (\<lambda>c. snd (canceled_has_credit_memo repr session c)) ?canceled))"
    using credit_memo_scan_closed [OF no_raise] found by (simp add: all rest)
  have E: "error r1 = None"
    using read_order_keeps_error [OF read] by (simp add: new_result_def)
  have verdict: "\<exists>r. validate_order repr session oid ctx =
            (Inr r, Sent (Order_GET oid) # fx1
                    @ concat (map (\<lambda>c. snd (canceled_has_credit_memo repr session c))
                                ?canceled))
           \<and> \<not> can_resend r
           \<and> validation_reason r =
                ''V041 error: canceled order without credit memo - requires VIAX review''
           \<and> validation_step r = ''2.1. V041 - No credit memo''
           \<and> canceled_order_has_credit_memo r = Some False
           \<and> error r = None
           \<and> blocked [r] = 1 \<and> errors [r] = 0"
    using v041_none_active
            [OF fetched usable read live v041 art sib some dicts none_active scan]
          some_canceled E
    by (simp add: Let_def blocked_def errors_def error_set_def)
  have step: "\<forall>c rest. spec_skipped repr session c \<longrightarrow>
             fst (canceled_has_credit_memo repr session c) = Inr False
             \<and> credit_memo_scan repr session (c # rest)
                 = (fst (credit_memo_scan repr session rest),
                    snd (canceled_has_credit_memo repr session c)
                    @ snd (credit_memo_scan repr session rest))"
  proof (intro allI impI)
    fix c rest
    assume "spec_skipped repr session c"
    then have no: "fst (canceled_has_credit_memo repr session c) = Inr False"
      by (rule skipped_has_no_credit_memo)
    then have whole: "canceled_has_credit_memo repr session c
                        = (Inr False, snd (canceled_has_credit_memo repr session c))"
      by (metis prod.collapse)
    have "credit_memo_scan repr session (c # rest)
                 = (fst (credit_memo_scan repr session rest),
                    snd (canceled_has_credit_memo repr session c)
                    @ snd (credit_memo_scan repr session rest))"
      by (subst credit_memo_scan.simps, subst whole) (simp add: split_beta)
    then show "fst (canceled_has_credit_memo repr session c) = Inr False
             \<and> credit_memo_scan repr session (c # rest)
                 = (fst (credit_memo_scan repr session rest),
                    snd (canceled_has_credit_memo repr session c)
                    @ snd (credit_memo_scan repr session rest))"
      using no by simp
  qed
  show ?thesis
    by (intro conjI verdict step)
qed

text \<open>The fixture of three canceled orders: the response for \<^verbatim>\<open>A4\<close> has no order details,
  \<^verbatim>\<open>A9\<close> cannot be fetched, and the third has no id.\<close>

theorem skipped_canceled_orders_are_denied_witness:
  "spec_skipped plain_repr
      (v041_service [sibling ''A4'' ''OrderCanceledInAMP'' True,
                     sibling ''A9'' ''OrderCanceledInAMP'' True,
                     JDict [(''orderStatus'', JStr ''OrderCanceledInAMP''),
                            (''inCancelledState'', JBool True)] ]
         ''OA'' ''CreditCard'' (JInt 0))
      (sibling ''A4'' ''OrderCanceledInAMP'' True)
   \<and> spec_skipped plain_repr
      (v041_service [sibling ''A4'' ''OrderCanceledInAMP'' True,
                     sibling ''A9'' ''OrderCanceledInAMP'' True,
                     JDict [(''orderStatus'', JStr ''OrderCanceledInAMP''),
                            (''inCancelledState'', JBool True)] ]
         ''OA'' ''CreditCard'' (JInt 0))
      (sibling ''A9'' ''OrderCanceledInAMP'' True)
   \<and> spec_skipped plain_repr
      (v041_service [sibling ''A4'' ''OrderCanceledInAMP'' True,
                     sibling ''A9'' ''OrderCanceledInAMP'' True,
                     JDict [(''orderStatus'', JStr ''OrderCanceledInAMP''),
                            (''inCancelledState'', JBool True)] ]
         ''OA'' ''CreditCard'' (JInt 0))
      (JDict [(''orderStatus'', JStr ''OrderCanceledInAMP''),
              (''inCancelledState'', JBool True)])
   \<and> (\<exists>r. validate_order plain_repr
        (v041_service [sibling ''A4'' ''OrderCanceledInAMP'' True,
                       sibling ''A9'' ''OrderCanceledInAMP'' True,
                       JDict [(''orderStatus'', JStr ''OrderCanceledInAMP''),
                              (''inCancelledState'', JBool True)] ]
           ''OA'' ''CreditCard'' (JInt 0))
        ''A1'' []
        = (Inr r, [Sent (Order_GET ''A1''), Sent (Orders_GET ''100''),
                   Sent (Order_GET ''A4''), Sent (Order_GET ''A9'')])
         \<and> \<not> can_resend r
         \<and> validation_reason r =
              ''V041 error: canceled order without credit memo - requires VIAX review''
         \<and> validation_step r = ''2.1. V041 - No credit memo''
         \<and> canceled_order_has_credit_memo r = Some False
         \<and> error r = None
         \<and> blocked [r] = 1 \<and> errors [r] = 0)"
proof -
  let ?noid = "JDict [(''orderStatus'', JStr ''OrderCanceledInAMP''),
                      (''inCancelledState'', JBool True)]"
  let ?sibs = "[sibling ''A4'' ''OrderCanceledInAMP'' True,
                sibling ''A9'' ''OrderCanceledInAMP'' True, ?noid]"
  let ?S = "v041_service ?sibs ''OA'' ''CreditCard'' (JInt 0)"
  let ?data = "order_json ''OrderPlaced'' [event ''Error'' ''V041: duplicate order'']
                 ''CreditCard'' (JInt 0)"
  let ?r1 = "(new_result ''A1'' [])
        \<lparr>article_id := JStr ''PD100'', order_status := JStr ''OrderPlaced'',
         payment_method := JStr ''CreditCard'', total_charged := JInt 0,
         journal_name := JStr ''Journal'', article_doi := JStr ''10.1002/x''\<rparr>"
  have fetched: "fst (get_order_details ?S ''A1'') = ?data"
    by (simp add: get_order_details_def v041_service_def service_def body_if_ok_def)
  have usable: "truthy ?data" by (simp add: order_json_def)
  have read: "read_order ?data (new_result ''A1'' [])
                = Inr (Continue (?r1, JList [event ''Error'' ''V041: duplicate order'']))"
    by (simp add: order_json_def read_order_def read_article_def read_journal_def
        read_payment_def dict_get_def new_result_def)
  have live: "order_status ?r1 \<noteq> JStr ''OrderCanceledInAMP''" by simp
  have v041: "check_error_in_history (JList [event ''Error'' ''V041: duplicate order''])
                = Inr (True, Some ''V041'', JStr ''V041: duplicate order'')"
    by (simp add: check_error_in_history_def event_def dict_get_def is_error_type_def
        extract_error_code_def)
  have art: "truthy (article_id ?r1)" by simp
  have sib: "get_multiple_orders plain_repr ?S (article_id ?r1)
               = (Inr (JList ?sibs), [Sent (Orders_GET ''100'')])"
    by (simp add: get_multiple_orders_def clean_article_id_def orders_payload_def
        v041_service_def service_def)
  have some: "?sibs \<noteq> []" by simp
  have dicts: "\<forall>s\<in>set ?sibs. \<exists>kvs. s = JDict kvs" by (simp add: sibling_def)
  have none_active: "filter (spec_not_canceled plain_repr ''A1'') ?sibs = []"
    by (simp add: spec_not_canceled_def sibling_def dict_get_def)
  have canceled: "filter (spec_canceled plain_repr ''A1'') ?sibs = ?sibs"
    by (simp add: spec_canceled_def sibling_def dict_get_def)
  have some_canceled: "filter (spec_canceled plain_repr ''A1'') ?sibs \<noteq> []"
    unfolding canceled by simp
  have s4: "spec_skipped plain_repr ?S (sibling ''A4'' ''OrderCanceledInAMP'' True)"
    by (simp add: spec_skipped_def sibling_def dict_get_def get_order_details_def
        v041_service_def service_def body_if_ok_def)
  have s9: "spec_skipped plain_repr ?S (sibling ''A9'' ''OrderCanceledInAMP'' True)"
    by (simp add: spec_skipped_def sibling_def dict_get_def get_order_details_def
        v041_service_def service_def body_if_ok_def)
  have s0: "spec_skipped plain_repr ?S ?noid"
    by (simp add: spec_skipped_def dict_get_def)
  have skipped: "\<forall>c\<in>set (filter (spec_canceled plain_repr ''A1'') ?sibs).
                   spec_skipped plain_repr ?S c"
    unfolding canceled using s4 s9 s0 by simp
  have e4: "snd (canceled_has_credit_memo plain_repr ?S
                   (sibling ''A4'' ''OrderCanceledInAMP'' True)) = [Sent (Order_GET ''A4'')]"
    by (simp add: canceled_has_credit_memo_def sibling_def dict_get_def get_order_details_def
        split_beta)
  have e9: "snd (canceled_has_credit_memo plain_repr ?S
                   (sibling ''A9'' ''OrderCanceledInAMP'' True)) = [Sent (Order_GET ''A9'')]"
    by (simp add: canceled_has_credit_memo_def sibling_def dict_get_def get_order_details_def
        split_beta)
  have e0: "snd (canceled_has_credit_memo plain_repr ?S ?noid) = []"
    by (simp add: canceled_has_credit_memo_def dict_get_def)
  have verdict: "\<exists>r. validate_order plain_repr ?S ''A1'' []
        = (Inr r, [Sent (Order_GET ''A1''), Sent (Orders_GET ''100''),
                   Sent (Order_GET ''A4''), Sent (Order_GET ''A9'')])
         \<and> \<not> can_resend r
         \<and> validation_reason r =
              ''V041 error: canceled order without credit memo - requires VIAX review''
         \<and> validation_step r = ''2.1. V041 - No credit memo''
         \<and> canceled_order_has_credit_memo r = Some False
         \<and> error r = None
         \<and> blocked [r] = 1 \<and> errors [r] = 0"
    using skipped_canceled_orders_are_denied
            [OF fetched usable read live v041 art sib some dicts none_active some_canceled
                skipped, THEN conjunct1]
    unfolding canceled by (simp add: e4 e9 e0)
  show ?thesis
    by (intro conjI s4 s9 s0 verdict)
qed

end
